theory Spec2Isabelle
  imports
    Main
    "HOL-Library.Char_ord"
    "HOL-Library.List_Lexorder"
    "HOL-Library.Sublist"
    "HOL-Library.Multiset"
begin

section \<open>The class model\<close>

text \<open>
  The diagram assembly engine of sol2uml: \<^verbatim>\<open>dotGenerator.ts\<close> renders one class as a
  Graphviz node, \<^verbatim>\<open>converter.ts\<close> groups the classes into subgraphs, resolves the
  associations into edges and writes the files.

  Strings are \<^typ>\<open>string\<close>; the comparison \<^verbatim>\<open><\<close> of two JavaScript strings is the
  lexicographic order of their code units, here the lexicographic order of
  \<^typ>\<open>char list\<close>. The glyphs of the source that lie outside ASCII are written as the
  bytes of their UTF-8 encoding, which is what the dot file holds.
\<close>

text \<open>
  Modelled from the spec: \<^verbatim>\<open>umlClass.ts\<close>, which declares the enumerations and the
  shapes of the class model, is not among the sources. The members are those the spec
  lists and the code names. A TypeScript enumeration is a number at run time and the
  code tests \<^verbatim>\<open>!x.visibility\<close>, \<^verbatim>\<open>!x.stereotype\<close> and \<^verbatim>\<open>operator.stereotype > 0\<close>: the
  member \<open>None\<close> of each enumeration is the one of ordinal 0 (the code's own comment
  reads "Rest are Public, None or undefined visibilities"), and the operator
  stereotypes have the ordinals of the order in which the spec lists them. A field that
  the code tests for absence is an \<^typ>\<open>'a option\<close>, \<^const>\<open>None\<close> being
  \<^verbatim>\<open>undefined\<close>.
\<close>

datatype Visibility =
  Visibility_None | Visibility_Public | Visibility_External
  | Visibility_Internal | Visibility_Private

datatype ClassStereotype =
  ClassStereotype_None | ClassStereotype_Abstract
  | ClassStereotype_Interface | ClassStereotype_Library

datatype OperatorStereotype =
  OperatorStereotype_None | OperatorStereotype_Event | OperatorStereotype_Fallback
  | OperatorStereotype_Modifier | OperatorStereotype_Abstract | OperatorStereotype_Payable

datatype ReferenceType = ReferenceType_Storage | ReferenceType_Memory

fun OperatorStereotype_ordinal :: "OperatorStereotype \<Rightarrow> int" where
  "OperatorStereotype_ordinal OperatorStereotype_None = 0"
| "OperatorStereotype_ordinal OperatorStereotype_Event = 1"
| "OperatorStereotype_ordinal OperatorStereotype_Fallback = 2"
| "OperatorStereotype_ordinal OperatorStereotype_Modifier = 3"
| "OperatorStereotype_ordinal OperatorStereotype_Abstract = 4"
| "OperatorStereotype_ordinal OperatorStereotype_Payable = 5"

text \<open>\<^verbatim>\<open>!attribute.visibility\<close>: the visibility is absent or the member of ordinal 0.\<close>

definition Visibility_falsy :: "Visibility option \<Rightarrow> bool" where
  "Visibility_falsy v = (v = None \<or> v = Some Visibility_None)"

text \<open>\<^verbatim>\<open>!targetUmlClass.stereotype\<close>\<close>

definition ClassStereotype_falsy :: "ClassStereotype option \<Rightarrow> bool" where
  "ClassStereotype_falsy s = (s = None \<or> s = Some ClassStereotype_None)"

record Parameter =
  parameter_name :: "string option"
  parameter_type :: string

record Attribute =
  attribute_name :: string
  attribute_type :: string
  attribute_visibility :: "Visibility option"

record Operator =
  operator_name :: string
  operator_parameters :: "Parameter list"
  operator_returnParameters :: "Parameter list option"
  operator_visibility :: "Visibility option"
  operator_stereotype :: OperatorStereotype

record StructField =
  field_name :: string
  field_type :: string

record Association =
  targetUmlClassName :: string
  referenceType :: ReferenceType
  realization :: bool

text \<open>
  \<open>structs\<close>, \<open>enums\<close> and \<open>associations\<close> are objects used as dictionaries; the code
  walks them with \<^verbatim>\<open>Object.keys\<close> and \<^verbatim>\<open>Object.values\<close>, so each is the list of its
  entries in enumeration order.
\<close>

record UmlClass =
  class_id :: string
  class_name :: string
  codePath :: string
  stereotype :: "ClassStereotype option"
  attributes :: "Attribute list"
  operators :: "Operator list"
  structs :: "(string \<times> StructField list) list"
  enums :: "(string \<times> string list) list"
  associations :: "(string \<times> Association) list"
  importedPaths :: "string list"

text \<open>\<^verbatim>\<open>ClassOptions\<close>: every field is optional, and an absent one is falsy.\<close>

record ClassOptions =
  hideAttributes :: bool
  hideOperators :: bool
  hideStructs :: bool
  hideEnums :: bool
  hideLibraries :: bool
  hideInterfaces :: bool

section \<open>Library functions of the platform\<close>

text \<open>
  \<^verbatim>\<open>Array.prototype.sort\<close> with a comparator: stable (ECMAScript 2019), an element
  \<open>x\<close> going before \<open>y\<close> when \<open>cmp x y < 0\<close> and keeping its place when \<open>cmp x y = 0\<close>.
\<close>

fun insort_by :: "('a \<Rightarrow> 'a \<Rightarrow> int) \<Rightarrow> 'a \<Rightarrow> 'a list \<Rightarrow> 'a list" where
  "insort_by cmp x [] = [x]"
| "insort_by cmp x (y # ys) =
     (if cmp x y \<le> 0 then x # y # ys else y # insort_by cmp x ys)"

definition Array_sort :: "('a \<Rightarrow> 'a \<Rightarrow> int) \<Rightarrow> 'a list \<Rightarrow> 'a list" where
  "Array_sort cmp xs = foldr (insort_by cmp) xs []"

text \<open>The decimal text of a counter, as string concatenation renders a number.\<close>

definition digit10 :: "nat \<Rightarrow> char" where
  "digit10 n = ''0123456789'' ! (n mod 10)"

fun Number_toString :: "nat \<Rightarrow> string" where
  "Number_toString n =
     (if n < 10 then [digit10 n] else Number_toString (n div 10) @ [digit10 n])"

declare Number_toString.simps [simp del]

section \<open>dotGenerator.ts\<close>

definition newline :: string where "newline = [CHR 0x0A]"
definition dquote :: string where "dquote = [CHR 0x22]"
definition backslash :: string where "backslash = [CHR 0x5C]"

definition glyph_class_Abstract :: string where
  "glyph_class_Abstract =
     [CHR 0xF0, CHR 0x9D, CHR 0x90, CHR 0x80, CHR 0xF0, CHR 0x9D, CHR 0x90, CHR 0x9B,
      CHR 0xF0, CHR 0x9D, CHR 0x90, CHR 0xAC, CHR 0xF0, CHR 0x9D, CHR 0x90, CHR 0xAD,
      CHR 0xF0, CHR 0x9D, CHR 0x90, CHR 0xAB, CHR 0xF0, CHR 0x9D, CHR 0x90, CHR 0x9A,
      CHR 0xF0, CHR 0x9D, CHR 0x90, CHR 0x9C, CHR 0xF0, CHR 0x9D, CHR 0x90, CHR 0xAD]"

definition glyph_class_Interface :: string where
  "glyph_class_Interface =
     [CHR 0xF0, CHR 0x9D, CHR 0x90, CHR 0x88, CHR 0xF0, CHR 0x9D, CHR 0x90, CHR 0xA7,
      CHR 0xF0, CHR 0x9D, CHR 0x90, CHR 0xAD, CHR 0xF0, CHR 0x9D, CHR 0x90, CHR 0x9E,
      CHR 0xF0, CHR 0x9D, CHR 0x90, CHR 0xAB, CHR 0xF0, CHR 0x9D, CHR 0x90, CHR 0x9F,
      CHR 0xF0, CHR 0x9D, CHR 0x90, CHR 0x9A, CHR 0xF0, CHR 0x9D, CHR 0x90, CHR 0x9C,
      CHR 0xF0, CHR 0x9D, CHR 0x90, CHR 0x9E]"

definition glyph_class_Library :: string where
  "glyph_class_Library =
     [CHR 0xF0, CHR 0x9D, CHR 0x90, CHR 0x8B, CHR 0xF0, CHR 0x9D, CHR 0x90, CHR 0xA2,
      CHR 0xF0, CHR 0x9D, CHR 0x90, CHR 0x9B, CHR 0xF0, CHR 0x9D, CHR 0x90, CHR 0xAB,
      CHR 0xF0, CHR 0x9D, CHR 0x90, CHR 0x9A, CHR 0xF0, CHR 0x9D, CHR 0x90, CHR 0xAB,
      CHR 0xF0, CHR 0x9D, CHR 0x90, CHR 0xB2]"

definition glyph_event :: string where
  "glyph_event =
     [CHR 0xF0, CHR 0x9D, CHR 0x99, CHR 0x9A, CHR 0xF0, CHR 0x9D, CHR 0x99, CHR 0xAB,
      CHR 0xF0, CHR 0x9D, CHR 0x99, CHR 0x9A, CHR 0xF0, CHR 0x9D, CHR 0x99, CHR 0xA3,
      CHR 0xF0, CHR 0x9D, CHR 0x99, CHR 0xA9]"

definition glyph_fallback :: string where
  "glyph_fallback =
     [CHR 0xF0, CHR 0x9D, CHR 0x99, CHR 0x9B, CHR 0xF0, CHR 0x9D, CHR 0x99, CHR 0x96,
      CHR 0xF0, CHR 0x9D, CHR 0x99, CHR 0xA1, CHR 0xF0, CHR 0x9D, CHR 0x99, CHR 0xA1,
      CHR 0xF0, CHR 0x9D, CHR 0x99, CHR 0x97, CHR 0xF0, CHR 0x9D, CHR 0x99, CHR 0x96,
      CHR 0xF0, CHR 0x9D, CHR 0x99, CHR 0x98, CHR 0xF0, CHR 0x9D, CHR 0x99, CHR 0xA0]"

definition glyph_modifier :: string where
  "glyph_modifier =
     [CHR 0xF0, CHR 0x9D, CHR 0x99, CHR 0xA2, CHR 0xF0, CHR 0x9D, CHR 0x99, CHR 0xA4,
      CHR 0xF0, CHR 0x9D, CHR 0x99, CHR 0x99, CHR 0xF0, CHR 0x9D, CHR 0x99, CHR 0x9E,
      CHR 0xF0, CHR 0x9D, CHR 0x99, CHR 0x9B, CHR 0xF0, CHR 0x9D, CHR 0x99, CHR 0x9E,
      CHR 0xF0, CHR 0x9D, CHR 0x99, CHR 0x9A, CHR 0xF0, CHR 0x9D, CHR 0x99, CHR 0xA7]"

definition glyph_abstract :: string where
  "glyph_abstract =
     [CHR 0xF0, CHR 0x9D, CHR 0x99, CHR 0x96, CHR 0xF0, CHR 0x9D, CHR 0x99, CHR 0x97,
      CHR 0xF0, CHR 0x9D, CHR 0x99, CHR 0xA8, CHR 0xF0, CHR 0x9D, CHR 0x99, CHR 0xA9,
      CHR 0xF0, CHR 0x9D, CHR 0x99, CHR 0xA7, CHR 0xF0, CHR 0x9D, CHR 0x99, CHR 0x96,
      CHR 0xF0, CHR 0x9D, CHR 0x99, CHR 0x98, CHR 0xF0, CHR 0x9D, CHR 0x99, CHR 0xA9]"

definition glyph_payable :: string where
  "glyph_payable =
     [CHR 0xF0, CHR 0x9D, CHR 0x99, CHR 0xA5, CHR 0xF0, CHR 0x9D, CHR 0x99, CHR 0x96,
      CHR 0xF0, CHR 0x9D, CHR 0x99, CHR 0xAE, CHR 0xF0, CHR 0x9D, CHR 0x99, CHR 0x96,
      CHR 0xF0, CHR 0x9D, CHR 0x99, CHR 0x97, CHR 0xF0, CHR 0x9D, CHR 0x99, CHR 0xA1,
      CHR 0xF0, CHR 0x9D, CHR 0x99, CHR 0x9A]"

definition dotClassTitle :: "UmlClass \<Rightarrow> string" where
  "dotClassTitle umlClass =
     (case stereotype umlClass of
        Some ClassStereotype_Abstract \<Rightarrow> glyph_class_Abstract @ '' '' @ class_name umlClass
      | Some ClassStereotype_Interface \<Rightarrow> glyph_class_Interface @ '' '' @ class_name umlClass
      | Some ClassStereotype_Library \<Rightarrow> glyph_class_Library @ '' '' @ class_name umlClass
      | _ \<Rightarrow> class_name umlClass)"

text \<open>
  The test of the two loops over the visibility groups: the chain of \<^verbatim>\<open>if\<close> and
  \<^verbatim>\<open>else if\<close> that decides whether a member is pushed to the list of \<open>vizGroup\<close>.
\<close>

definition inVizGroup :: "string \<Rightarrow> Visibility option \<Rightarrow> bool" where
  "inVizGroup vizGroup visibility =
     (if vizGroup = ''Private'' \<and> visibility = Some Visibility_Private then True
      else if vizGroup = ''Internal'' \<and> visibility = Some Visibility_Internal then True
      else if vizGroup = ''External'' \<and> visibility = Some Visibility_External then True
      else if vizGroup = ''Public'' \<and>
              (visibility = Some Visibility_Public \<or> visibility = Some Visibility_None
               \<or> Visibility_falsy visibility) then True
      else False)"

definition vizGroups :: "string list" where
  "vizGroups = [''Private'', ''Internal'', ''External'', ''Public'']"

definition dotAttribute :: "Attribute \<Rightarrow> string" where
  "dotAttribute attribute =
     backslash @ '' '' @ backslash @ '' '' @ backslash @ '' '' @ attribute_name attribute
       @ '': '' @ attribute_type attribute @ backslash @ ''l''"

definition dotAttributes :: "string \<Rightarrow> Attribute list \<Rightarrow> string" where
  "dotAttributes vizGroup attrs =
     (if length attrs = 0 then ''''
      else foldl (\<lambda>dotString attribute. dotString @ dotAttribute attribute)
             (vizGroup @ '':'' @ backslash @ ''l'') attrs)"

definition dotAttributeVisibilities :: "UmlClass \<Rightarrow> string" where
  "dotAttributeVisibilities umlClass =
     foldl (\<lambda>dotString vizGroup.
              dotString @ dotAttributes vizGroup
                (filter (\<lambda>attribute. inVizGroup vizGroup (attribute_visibility attribute))
                   (attributes umlClass)))
       ''| '' vizGroups"

definition dotOperatorStereotype :: "UmlClass \<Rightarrow> OperatorStereotype \<Rightarrow> string" where
  "dotOperatorStereotype umlClass operatorStereotype =
     (case operatorStereotype of
        OperatorStereotype_Event \<Rightarrow> glyph_event
      | OperatorStereotype_Fallback \<Rightarrow> glyph_fallback
      | OperatorStereotype_Modifier \<Rightarrow> glyph_modifier
      | OperatorStereotype_Abstract \<Rightarrow>
          (if stereotype umlClass = Some ClassStereotype_Abstract then glyph_abstract else '''')
      | OperatorStereotype_Payable \<Rightarrow> glyph_payable
      | _ \<Rightarrow> '''') @ '' ''"

text \<open>
  \<^verbatim>\<open>!parameters[0].name\<close> holds of \<^verbatim>\<open>null\<close> and of the empty string;
  \<^verbatim>\<open>parameter.name === null\<close> holds of \<^verbatim>\<open>null\<close> only.
\<close>

definition dotParameter :: "Parameter \<Rightarrow> string" where
  "dotParameter parameter =
     (case parameter_name parameter of
        None \<Rightarrow> parameter_type parameter
      | Some n \<Rightarrow> n @ '': '' @ parameter_type parameter)"

fun dotParameters_loop :: "Parameter list \<Rightarrow> string \<Rightarrow> string" where
  "dotParameters_loop [] dotString = dotString"
| "dotParameters_loop (parameter # rest) dotString =
     dotParameters_loop rest
       (dotString @ dotParameter parameter @ (if rest \<noteq> [] then '', '' else ''''))"

definition dotParameters :: "Parameter list \<Rightarrow> bool \<Rightarrow> string" where
  "dotParameters parameters returnParams =
     (if length parameters = 1
         \<and> (parameter_name (hd parameters) = None \<or> parameter_name (hd parameters) = Some '''')
      then (if returnParams then parameter_type (hd parameters)
            else ''('' @ parameter_type (hd parameters) @ '')'')
      else dotParameters_loop parameters ''('' @ '')'')"

text \<open>The body of the loop of \<^verbatim>\<open>dotOperators\<close> over the sorted operators.\<close>

definition dotOperator :: "UmlClass \<Rightarrow> Operator \<Rightarrow> string" where
  "dotOperator umlClass operator =
     backslash @ '' '' @ backslash @ '' '' @ backslash @ '' '' @ backslash @ '' ''
       @ (if OperatorStereotype_ordinal (operator_stereotype operator) > 0
          then dotOperatorStereotype umlClass (operator_stereotype operator) else '''')
       @ operator_name operator
       @ dotParameters (operator_parameters operator) False
       @ (case operator_returnParameters operator of
            None \<Rightarrow> ''''
          | Some rs \<Rightarrow> (if length rs > 0 then '': '' @ dotParameters rs True else ''''))
       @ backslash @ ''l''"

definition operatorsSortedByStereotype :: "Operator list \<Rightarrow> Operator list" where
  "operatorsSortedByStereotype ops =
     Array_sort (\<lambda>a b. OperatorStereotype_ordinal (operator_stereotype b)
                      - OperatorStereotype_ordinal (operator_stereotype a)) ops"

definition dotOperators :: "UmlClass \<Rightarrow> string \<Rightarrow> Operator list \<Rightarrow> string" where
  "dotOperators umlClass vizGroup ops =
     (if length ops = 0 then ''''
      else foldl (\<lambda>dotString operator. dotString @ dotOperator umlClass operator)
             (vizGroup @ '':'' @ backslash @ ''l'') (operatorsSortedByStereotype ops))"

definition dotOperatorVisibilities :: "UmlClass \<Rightarrow> string" where
  "dotOperatorVisibilities umlClass =
     foldl (\<lambda>dotString vizGroup.
              dotString @ dotOperators umlClass vizGroup
                (filter (\<lambda>operator. inVizGroup vizGroup (operator_visibility operator))
                   (operators umlClass)))
       ''| '' vizGroups"

text \<open>
  \<^verbatim>\<open>dotStructs\<close> and \<^verbatim>\<open>dotEnums\<close>: one satellite node per entry and an edge to the
  owning class; \<open>structCount\<close> and \<open>enumCount\<close> are local counters from 0.
\<close>

fun dotStructs_loop :: "UmlClass \<Rightarrow> (string \<times> StructField list) list \<Rightarrow> nat \<Rightarrow> string \<Rightarrow> string" where
  "dotStructs_loop umlClass [] structCount dotString = dotString"
| "dotStructs_loop umlClass ((structKey, structFields) # rest) structCount dotString =
     (let structId = class_id umlClass @ ''struct'' @ Number_toString structCount in
      dotStructs_loop umlClass rest (structCount + 1)
        (foldl (\<lambda>s attribute. s @ field_name attribute @ '': ''
                                 @ field_type attribute @ backslash @ ''l'')
           (dotString @ newline @ dquote @ structId @ dquote @ '' [label='' @ dquote @ ''{''
              @ backslash @ ''<'' @ backslash @ ''<struct'' @ backslash @ ''>'' @ backslash @ ''>''
              @ backslash @ ''n'' @ structKey @ ''|'')
           structFields
         @ ''}'' @ dquote @ '']''
         @ newline @ dquote @ structId @ dquote @ '' -> '' @ class_id umlClass
         @ '' [arrowhead=diamond, weight=3]''))"

definition dotStructs :: "UmlClass \<Rightarrow> string" where
  "dotStructs umlClass = dotStructs_loop umlClass (structs umlClass) 0 ''''"

fun dotEnums_loop :: "UmlClass \<Rightarrow> (string \<times> string list) list \<Rightarrow> nat \<Rightarrow> string \<Rightarrow> string" where
  "dotEnums_loop umlClass [] enumCount dotString = dotString"
| "dotEnums_loop umlClass ((enumKey, vals) # rest) enumCount dotString =
     (let enumId = class_id umlClass @ ''enum'' @ Number_toString enumCount in
      dotEnums_loop umlClass rest (enumCount + 1)
        (foldl (\<lambda>s v. s @ v @ backslash @ ''l'')
           (dotString @ newline @ dquote @ enumId @ dquote @ '' [label='' @ dquote @ ''{''
              @ backslash @ ''<'' @ backslash @ ''<enum'' @ backslash @ ''>'' @ backslash @ ''>''
              @ backslash @ ''n'' @ enumKey @ ''|'')
           vals
         @ ''}'' @ dquote @ '']''
         @ newline @ dquote @ enumId @ dquote @ '' -> '' @ class_id umlClass
         @ '' [arrowhead=diamond, weight=3]''))"

definition dotEnums :: "UmlClass \<Rightarrow> string" where
  "dotEnums umlClass = dotEnums_loop umlClass (enums umlClass) 0 ''''"

text \<open>The guard shared by \<^verbatim>\<open>dotUmlClass\<close> and \<^verbatim>\<open>addAssociationToDot\<close>.\<close>

definition hiddenClass :: "ClassOptions \<Rightarrow> UmlClass \<Rightarrow> bool" where
  "hiddenClass options umlClass =
     ((hideLibraries options \<and> stereotype umlClass = Some ClassStereotype_Library)
      \<or> (hideInterfaces options \<and> stereotype umlClass = Some ClassStereotype_Interface))"

definition dotUmlClass :: "UmlClass \<Rightarrow> ClassOptions \<Rightarrow> string" where
  "dotUmlClass umlClass options =
     (if hiddenClass options umlClass then ''''
      else
        newline @ class_id umlClass @ '' [label='' @ dquote @ ''{'' @ dotClassTitle umlClass
        @ (if \<not> hideAttributes options then dotAttributeVisibilities umlClass else '''')
        @ (if \<not> hideOperators options then dotOperatorVisibilities umlClass else '''')
        @ ''}'' @ dquote @ '']''
        @ (if \<not> hideStructs options then dotStructs umlClass else '''')
        @ (if \<not> hideEnums options then dotEnums umlClass else ''''))"

section \<open>converter.ts\<close>

text \<open>
  \<^verbatim>\<open>subGraphCount\<close> is a variable of the module, read and incremented by
  \<^verbatim>\<open>getSubGraphName\<close>: the function takes the counter and returns the name with the
  counter's new value. The counter is a JavaScript number, exact on the integers below
  \<open>2^53\<close>; it is a natural number here.
\<close>

definition getSubGraphName :: "bool \<Rightarrow> nat \<Rightarrow> string \<times> nat" where
  "getSubGraphName clusterFolders subGraphCount =
     (if clusterFolders then ('' cluster_'' @ Number_toString subGraphCount, subGraphCount + 1)
      else ('' graph_'' @ Number_toString subGraphCount, subGraphCount + 1))"

definition compareCodePath :: "UmlClass \<Rightarrow> UmlClass \<Rightarrow> int" where
  "compareCodePath a b =
     (if codePath a < codePath b then - 1 else if codePath a > codePath b then 1 else 0)"

text \<open>
  \<^verbatim>\<open>Array.prototype.sort\<close> sorts in place and returns the same array: after the call the
  caller's \<open>umlClasses\<close> is the sorted list as well.
\<close>

definition sortUmlClassesByCodePath :: "UmlClass list \<Rightarrow> UmlClass list" where
  "sortUmlClassesByCodePath umlClasses = Array_sort compareCodePath umlClasses"

definition addAssociationToDot ::
  "UmlClass \<Rightarrow> UmlClass \<Rightarrow> Association \<Rightarrow> ClassOptions \<Rightarrow> string" where
  "addAssociationToDot sourceUmlClass targetUmlClass association classOptions =
     (if hiddenClass classOptions targetUmlClass then ''''
      else
        newline @ class_id sourceUmlClass @ '' -> '' @ class_id targetUmlClass @ '' [''
        @ (if referenceType association = ReferenceType_Memory
              \<or> (realization association
                  \<and> stereotype targetUmlClass = Some ClassStereotype_Interface)
           then ''style=dashed, '' else '''')
        @ (if realization association
           then ''arrowhead=empty, arrowsize=3, ''
                @ (if ClassStereotype_falsy (stereotype targetUmlClass)
                   then ''weight=4, '' else ''weight=3, '')
           else '''')
        @ '']'')"

text \<open>The predicate handed to \<^verbatim>\<open>umlClasses.find\<close>.\<close>

definition isTargetOf :: "UmlClass \<Rightarrow> Association \<Rightarrow> UmlClass \<Rightarrow> bool" where
  "isTargetOf sourceUmlClass association targetUmlClass =
     (class_name targetUmlClass = targetUmlClassName association
      \<and> (codePath targetUmlClass \<in> set (importedPaths sourceUmlClass)
         \<or> codePath sourceUmlClass = codePath targetUmlClass))"

definition addAssociationsToDot :: "UmlClass list \<Rightarrow> ClassOptions \<Rightarrow> string" where
  "addAssociationsToDot umlClasses classOptions =
     foldl (\<lambda>dotString sourceUmlClass.
              foldl (\<lambda>dotString association.
                       case find (isTargetOf sourceUmlClass association) umlClasses of
                         None \<Rightarrow> dotString
                       | Some targetUmlClass \<Rightarrow>
                           dotString @ addAssociationToDot sourceUmlClass targetUmlClass
                                         association classOptions)
                dotString (map snd (associations sourceUmlClass)))
       '''' umlClasses"

definition dotHeader :: string where
  "dotHeader =
     newline @ ''digraph UmlClassDiagram {'' @ newline @ ''rankdir=BT'' @ newline
     @ ''color=black'' @ newline @ ''arrowhead=open'' @ newline
     @ ''node [shape=record, style=filled, fillcolor=gray95]''"

text \<open>
  The loop of \<^verbatim>\<open>convertUmlClasses2Dot\<close> over the sorted classes, on the variables
  \<open>dotString\<close>, \<open>currentCodeFolder\<close> and the module's \<open>subGraphCount\<close>.
  \<^verbatim>\<open>path.dirname\<close> belongs to the platform and is the parameter \<open>dirname\<close>.
\<close>

fun subgraphs_loop ::
  "(string \<Rightarrow> string) \<Rightarrow> bool \<Rightarrow> ClassOptions \<Rightarrow> UmlClass list
     \<Rightarrow> string \<times> string \<times> nat \<Rightarrow> string \<times> string \<times> nat" where
  "subgraphs_loop dirname clusterFolders classOptions [] state = state"
| "subgraphs_loop dirname clusterFolders classOptions (umlClass # rest)
     (dotString, currentCodeFolder, subGraphCount) =
     (let codeFolder = dirname (codePath umlClass) in
      if currentCodeFolder \<noteq> codeFolder then
        (let dotString1 =
               (if currentCodeFolder \<noteq> '''' then dotString @ newline @ ''}'' else dotString);
             (subGraphName, subGraphCount1) = getSubGraphName clusterFolders subGraphCount;
             dotString2 =
               dotString1 @ newline @ ''subgraph '' @ subGraphName @ '' {'' @ newline
               @ ''label='' @ dquote @ codeFolder @ dquote
         in subgraphs_loop dirname clusterFolders classOptions rest
              (dotString2 @ dotUmlClass umlClass classOptions, codeFolder, subGraphCount1))
      else
        subgraphs_loop dirname clusterFolders classOptions rest
          (dotString @ dotUmlClass umlClass classOptions, currentCodeFolder, subGraphCount))"

text \<open>
  \<^verbatim>\<open>convertUmlClasses2Dot\<close> returns the dot text; it leaves the caller's array sorted
  and the counter advanced, which are the second and third components here. The
  associations are added from \<open>umlClasses\<close> after the sort in place, that is, from the
  sorted list.
\<close>

definition convertUmlClasses2Dot ::
  "(string \<Rightarrow> string) \<Rightarrow> UmlClass list \<Rightarrow> bool \<Rightarrow> ClassOptions \<Rightarrow> nat
     \<Rightarrow> string \<times> UmlClass list \<times> nat" where
  "convertUmlClasses2Dot dirname umlClasses clusterFolders classOptions subGraphCount =
     (let umlClassesSortedByCodePath = sortUmlClassesByCodePath umlClasses;
          (dotString, currentCodeFolder, subGraphCount1) =
            subgraphs_loop dirname clusterFolders classOptions umlClassesSortedByCodePath
              (dotHeader, '''', subGraphCount);
          dotString1 =
            (if currentCodeFolder \<noteq> '''' then dotString @ newline @ ''}'' else dotString);
          dotString2 =
            dotString1 @ addAssociationsToDot umlClassesSortedByCodePath classOptions
      in (dotString2 @ newline @ ''}'', umlClassesSortedByCodePath, subGraphCount1))"

text \<open>
  \<^verbatim>\<open>path.dirname\<close> of Node on POSIX paths, to evaluate examples: the path up to the last
  slash that follows the trailing slashes and the last component, \<^verbatim>\<open>.\<close> or \<^verbatim>\<open>/\<close> when
  there is none. It never returns the empty string.
\<close>

definition posix_dirname :: "string \<Rightarrow> string" where
  "posix_dirname p =
     (if p = [] then ''.''
      else
        (let hasRoot = (hd p = CHR ''/'');
             rest = dropWhile (\<lambda>c. c \<noteq> CHR ''/'')
                      (dropWhile (\<lambda>c. c = CHR ''/'') (rev (tl p)))
         in if rest = [] then (if hasRoot then ''/'' else ''.'')
            else if hasRoot \<and> length rest = 1 then ''//''
            else take (length rest) p))"

text \<open>
  The platform the pipeline calls: the file system, the process, \<^verbatim>\<open>path\<close>, the layout
  engine \<^verbatim>\<open>Viz\<close> and the raster converter. Each call is a field, and a call that can
  fail returns its error.
\<close>

datatype error = Error string | VError error string

datatype OutputFormats = Format_svg | Format_png | Format_dot | Format_all

record Platform =
  fs_writeFile :: "string \<Rightarrow> string \<Rightarrow> error option"
  fs_lstatSync_isDirectory :: "string \<Rightarrow> error + bool"
  process_cwd :: string
  path_parse_dir :: "string \<Rightarrow> string"
  path_parse_name :: "string \<Rightarrow> string"
  path_join :: "string \<Rightarrow> string \<Rightarrow> string"
  path_resolve :: "string \<Rightarrow> string"
  path_dirname :: "string \<Rightarrow> string"
  Viz :: "string \<Rightarrow> error + string"
  svg_to_png_convert :: "string \<Rightarrow> string \<Rightarrow> error option"

definition convertDot2Svg :: "Platform \<Rightarrow> string \<Rightarrow> error + string" where
  "convertDot2Svg platform dot =
     (case Viz platform dot of
        Inl err \<Rightarrow> Inl (VError err ''Failed to parse dot string'')
      | Inr svg \<Rightarrow> Inr svg)"

text \<open>
  \<^verbatim>\<open>writeDot\<close> hands \<^verbatim>\<open>writeFile\<close> a callback and returns. When the write fails the
  callback throws its \<^verbatim>\<open>VError\<close> on the event loop, where no caller of \<^verbatim>\<open>writeDot\<close>
  receives it: the value of the model is the list of the errors thrown that way.
\<close>

definition writeDot :: "Platform \<Rightarrow> string \<Rightarrow> string option \<Rightarrow> error list" where
  "writeDot platform dot dotFilenameArg =
     (let dotFilename = (case dotFilenameArg of None \<Rightarrow> ''classDiagram.dot'' | Some f \<Rightarrow> f) in
      case fs_writeFile platform dotFilename dot of
        None \<Rightarrow> []
      | Some err \<Rightarrow> [VError err (''Failed to write Dot file to '' @ dotFilename)])"

text \<open>
  \<^verbatim>\<open>writeSVG\<close> returns a promise that the callback of \<^verbatim>\<open>writeFile\<close> rejects or resolves:
  the value of the model is what the promise settles to.
\<close>

definition writeSVG :: "Platform \<Rightarrow> string \<Rightarrow> string option \<Rightarrow> OutputFormats \<Rightarrow> error + unit" where
  "writeSVG platform svg svgFilenameArg outputFormats =
     (let svgFilename0 = (case svgFilenameArg of None \<Rightarrow> ''classDiagram.svg'' | Some f \<Rightarrow> f);
          svgFilename =
            (if outputFormats = Format_png then
               (if path_parse_dir platform svgFilename0 = ''''
                then process_cwd platform @ ''/'' @ path_parse_name platform svgFilename0 @ ''.svg''
                else path_parse_dir platform svgFilename0 @ ''/''
                     @ path_parse_name platform svgFilename0 @ ''.svg'')
             else svgFilename0)
      in case fs_writeFile platform svgFilename svg of
           None \<Rightarrow> Inr ()
         | Some err \<Rightarrow> Inl (VError err (''Failed to write SVG file to '' @ svgFilename)))"

definition writePng :: "Platform \<Rightarrow> string \<Rightarrow> string \<Rightarrow> error + unit" where
  "writePng platform svg filename =
     (let pngDir = (if path_parse_dir platform filename = '''' then ''.''
                    else path_resolve platform (path_parse_dir platform filename));
          svgFilename = pngDir @ ''/'' @ path_parse_name platform filename @ ''.svg'';
          pngFilename = pngDir @ ''/'' @ path_parse_name platform filename @ ''.png''
      in case svg_to_png_convert platform (path_resolve platform svgFilename) pngDir of
           None \<Rightarrow> Inr ()
         | Some err \<Rightarrow>
             Inl (VError err (''Failed to convert SVG file '' @ svgFilename
                                @ '' to PNG file '' @ pngFilename)))"

definition OutputFormats_text :: "OutputFormats \<Rightarrow> string" where
  "OutputFormats_text f =
     (case f of Format_svg \<Rightarrow> ''svg'' | Format_png \<Rightarrow> ''png''
      | Format_dot \<Rightarrow> ''dot'' | Format_all \<Rightarrow> ''all'')"

text \<open>
  \<^verbatim>\<open>generateFilesFromUmlClasses\<close>: the value is what the promise of the operation
  settles to (\<open>Inl\<close> a rejection, which is what its caller receives), the errors
  thrown on the event loop by the callback of \<^verbatim>\<open>writeDot\<close>, and the counter.
\<close>

definition generateFilesFromUmlClasses ::
  "Platform \<Rightarrow> UmlClass list \<Rightarrow> string \<Rightarrow> OutputFormats \<Rightarrow> string option \<Rightarrow> bool
     \<Rightarrow> ClassOptions \<Rightarrow> nat \<Rightarrow> (error + unit) \<times> error list \<times> nat" where
  "generateFilesFromUmlClasses platform umlClasses outputBaseName outputFormat outputFilename
     clusterFolders classOptions subGraphCount =
     (let (dot, umlClassesSorted, subGraphCount1) =
            convertUmlClasses2Dot (path_dirname platform) umlClasses clusterFolders classOptions
              subGraphCount;
          thrown =
            (if outputFormat = Format_dot \<or> outputFormat = Format_all
             then writeDot platform dot outputFilename else [])
      in if outputFormat = Format_dot then (Inr (), thrown, subGraphCount1)
         else
           (let derived =
                  (let outputExt =
                         (if outputFormat = Format_all then ''svg''
                          else OutputFormats_text outputFormat);
                       outputBaseName1 =
                         (case fs_lstatSync_isDirectory platform outputBaseName of
                            Inr True \<Rightarrow>
                              path_join platform (process_cwd platform)
                                (path_parse_name platform (process_cwd platform))
                          | _ \<Rightarrow> outputBaseName)
                   in outputBaseName1 @ ''.'' @ outputExt);
                outputFilename1 =
                  (case outputFilename of
                     None \<Rightarrow> derived
                   | Some f \<Rightarrow> (if f = '''' then derived else f))
            in case convertDot2Svg platform dot of
                 Inl err \<Rightarrow> (Inl err, thrown, subGraphCount1)
               | Inr svg \<Rightarrow>
                   (case writeSVG platform svg (Some outputFilename1) outputFormat of
                      Inl err \<Rightarrow> (Inl err, thrown, subGraphCount1)
                    | Inr u \<Rightarrow>
                        (if outputFormat = Format_png \<or> outputFormat = Format_all
                         then (writePng platform svg outputFilename1, thrown, subGraphCount1)
                         else (Inr (), thrown, subGraphCount1)))))"

section \<open>Notions of the specification\<close>

text \<open>
  The maximal runs of consecutive classes with the same containing folder, each with
  its folder.
\<close>

function folderRuns :: "(string \<Rightarrow> string) \<Rightarrow> UmlClass list \<Rightarrow> (string \<times> UmlClass list) list" where
  "folderRuns dirname [] = []"
| "folderRuns dirname (c # cs) =
     (dirname (codePath c),
      c # takeWhile (\<lambda>x. dirname (codePath x) = dirname (codePath c)) cs)
     # folderRuns dirname (dropWhile (\<lambda>x. dirname (codePath x) = dirname (codePath c)) cs)"
  by pat_completeness auto
termination
  by (relation "measure (\<lambda>(d, cs). length cs)") (auto simp: length_dropWhile_le less_Suc_eq_le)

text \<open>The text of one subgraph block: its opening, its label, its nodes, its closing.\<close>

definition subgraphBlock :: "bool \<Rightarrow> ClassOptions \<Rightarrow> nat \<times> string \<times> UmlClass list \<Rightarrow> string" where
  "subgraphBlock clusterFolders classOptions b =
     (case b of (counter, folder, run) \<Rightarrow>
        newline @ ''subgraph '' @ fst (getSubGraphName clusterFolders counter) @ '' {'' @ newline
        @ ''label='' @ dquote @ folder @ dquote
        @ concat (map (\<lambda>umlClass. dotUmlClass umlClass classOptions) run)
        @ newline @ ''}'')"

text \<open>
  The resolved associations of a list of classes: for each source in list order and
  each of its associations in order, the source, the target found, and the association.
\<close>

definition resolvedAssociations :: "UmlClass list \<Rightarrow> (UmlClass \<times> UmlClass \<times> Association) list" where
  "resolvedAssociations umlClasses =
     concat (map (\<lambda>s. concat (map (\<lambda>a. case find (isTargetOf s a) umlClasses of
                                         None \<Rightarrow> [] | Some t \<Rightarrow> [(s, t, a)])
                                (map snd (associations s))))
               umlClasses)"

text \<open>Two classes that differ in their associations at most.\<close>

definition sameButAssociations :: "UmlClass \<Rightarrow> UmlClass \<Rightarrow> bool" where
  "sameButAssociations x y = (y = x\<lparr>associations := associations y\<rparr>)"

text \<open>
  The text of the edges of one source class for a list of its associations, the targets
  looked up in \<open>umlClasses\<close>.
\<close>

definition sourceEdges ::
  "UmlClass list \<Rightarrow> ClassOptions \<Rightarrow> UmlClass \<Rightarrow> Association list \<Rightarrow> string" where
  "sourceEdges umlClasses classOptions sourceUmlClass assocs =
     concat (map (\<lambda>association.
       case find (isTargetOf sourceUmlClass association) umlClasses of
         None \<Rightarrow> ''''
       | Some targetUmlClass \<Rightarrow>
           addAssociationToDot sourceUmlClass targetUmlClass association classOptions)
       assocs)"

section \<open>Examples\<close>

definition ex_options :: "bool \<Rightarrow> bool \<Rightarrow> ClassOptions" where
  "ex_options hideLib hideInt = \<lparr>hideAttributes = False, hideOperators = False,
     hideStructs = False, hideEnums = False, hideLibraries = hideLib,
     hideInterfaces = hideInt\<rparr>"

definition ex_operator :: "string \<Rightarrow> Visibility option \<Rightarrow> OperatorStereotype \<Rightarrow> Operator" where
  "ex_operator n v s = \<lparr>operator_name = n, operator_parameters = [],
     operator_returnParameters = None, operator_visibility = v, operator_stereotype = s\<rparr>"

definition ex_attribute :: "string \<Rightarrow> Visibility option \<Rightarrow> Attribute" where
  "ex_attribute n v = \<lparr>attribute_name = n, attribute_type = ''uint256'',
     attribute_visibility = v\<rparr>"

definition ex_association :: "string \<Rightarrow> ReferenceType \<Rightarrow> bool \<Rightarrow> Association" where
  "ex_association n r b = \<lparr>targetUmlClassName = n, referenceType = r, realization = b\<rparr>"

definition ex_class ::
  "string \<Rightarrow> string \<Rightarrow> string \<Rightarrow> ClassStereotype option \<Rightarrow> (string \<times> Association) list
     \<Rightarrow> string list \<Rightarrow> UmlClass" where
  "ex_class i n p s assocs imports = \<lparr>class_id = i, class_name = n, codePath = p,
     stereotype = s, attributes = [], operators = [], structs = [], enums = [],
     associations = assocs, importedPaths = imports\<rparr>"

text \<open>A platform on which every write fails and the layout engine answers.\<close>

definition ex_platform :: Platform where
  "ex_platform = \<lparr>
     fs_writeFile = (\<lambda>file contents. Some (Error ''ENOENT'')),
     fs_lstatSync_isDirectory = (\<lambda>file. Inl (Error ''ENOENT'')),
     process_cwd = ''/work'',
     path_parse_dir = (\<lambda>file. ''out''),
     path_parse_name = (\<lambda>file. ''diagram''),
     path_join = (\<lambda>a b. a @ ''/'' @ b),
     path_resolve = (\<lambda>file. ''/work/'' @ file),
     path_dirname = posix_dirname,
     Viz = (\<lambda>dot. Inr ''<svg/>''),
     svg_to_png_convert = (\<lambda>file dir. None)\<rparr>"


section \<open>Sorting and accumulation\<close>

lemma insort_by_insort_key:
  assumes "\<And>x y. (cmp x y \<le> 0) = (f x \<le> f y)"
  shows "insort_by cmp x ys = insort_key f x ys"
  by (induction ys) (simp_all add: assms)

lemma Array_sort_sort_key:
  assumes "\<And>x y. (cmp x y \<le> 0) = (f x \<le> f y)"
  shows "Array_sort cmp xs = sort_key f xs"
proof -
  have "insort_by cmp = insort_key f"
    by (intro ext) (rule insort_by_insort_key [OF assms])
  then show ?thesis
    by (simp add: Array_sort_def sort_key_def)
qed

lemma operatorsSortedByStereotype_sort_key:
  "operatorsSortedByStereotype ops =
     sort_key (\<lambda>operator. - OperatorStereotype_ordinal (operator_stereotype operator)) ops"
  unfolding operatorsSortedByStereotype_def
  by (rule Array_sort_sort_key) auto

lemma sortUmlClassesByCodePath_sort_key:
  "sortUmlClassesByCodePath umlClasses = sort_key codePath umlClasses"
  unfolding sortUmlClassesByCodePath_def
  by (rule Array_sort_sort_key) (auto simp: compareCodePath_def)

lemma foldl_append_concat:
  "foldl (\<lambda>acc x. acc @ f x) a xs = a @ concat (map f xs)"
  by (induction xs arbitrary: a) simp_all

lemma OperatorStereotype_ordinal_inj:
  "OperatorStereotype_ordinal a = OperatorStereotype_ordinal b \<Longrightarrow> a = b"
  by (cases a; cases b) simp_all

lemma operatorsSortedByStereotype_descending:
  "sorted_wrt (\<lambda>a b. OperatorStereotype_ordinal (operator_stereotype b)
                     \<le> OperatorStereotype_ordinal (operator_stereotype a))
     (operatorsSortedByStereotype ops)"
proof -
  let ?k = "\<lambda>operator. - OperatorStereotype_ordinal (operator_stereotype operator)"
  have "sorted (map ?k (sort_key ?k ops))" by (rule sorted_sort_key)
  then show ?thesis
    by (simp add: operatorsSortedByStereotype_sort_key sorted_map)
qed

lemma operatorsSortedByStereotype_stable:
  "filter (\<lambda>operator. operator_stereotype operator = k) (operatorsSortedByStereotype ops)
     = filter (\<lambda>operator. operator_stereotype operator = k) ops"
proof -
  let ?k = "\<lambda>operator. - OperatorStereotype_ordinal (operator_stereotype operator)"
  have eq: "(\<lambda>operator. operator_stereotype operator = k)
              = (\<lambda>y. ?k y = - OperatorStereotype_ordinal k)"
    by (auto dest: OperatorStereotype_ordinal_inj)
  show ?thesis
    unfolding operatorsSortedByStereotype_sort_key eq by (rule sort_key_stable)
qed

lemma dotOperators_concat:
  "dotOperators umlClass vizGroup ops =
     (if ops = [] then ''''
      else vizGroup @ '':'' @ backslash @ ''l''
           @ concat (map (dotOperator umlClass) (operatorsSortedByStereotype ops)))"
  by (simp add: dotOperators_def foldl_append_concat)

lemma dotAttributes_concat:
  "dotAttributes vizGroup attrs =
     (if attrs = [] then ''''
      else vizGroup @ '':'' @ backslash @ ''l'' @ concat (map dotAttribute attrs))"
  by (simp add: dotAttributes_def foldl_append_concat)

lemma inVizGroup_Private:
  "inVizGroup ''Private'' v = (v = Some Visibility_Private)"
  by (simp add: inVizGroup_def)

lemma inVizGroup_Internal:
  "inVizGroup ''Internal'' v = (v = Some Visibility_Internal)"
  by (simp add: inVizGroup_def)

lemma inVizGroup_External:
  "inVizGroup ''External'' v = (v = Some Visibility_External)"
  by (simp add: inVizGroup_def)

lemma inVizGroup_Public:
  "inVizGroup ''Public'' v =
     (v = Some Visibility_Public \<or> v = Some Visibility_None \<or> v = None)"
  by (auto simp add: inVizGroup_def Visibility_falsy_def)

lemmas inVizGroup_simps =
  inVizGroup_Private inVizGroup_Internal inVizGroup_External inVizGroup_Public

lemma inVizGroup_one_tier:
  "filter (\<lambda>vizGroup. inVizGroup vizGroup v) vizGroups =
     [case v of
        Some Visibility_Private \<Rightarrow> ''Private''
      | Some Visibility_Internal \<Rightarrow> ''Internal''
      | Some Visibility_External \<Rightarrow> ''External''
      | _ \<Rightarrow> ''Public'']"
proof (cases v)
  case None
  then show ?thesis by (simp add: vizGroups_def inVizGroup_simps)
next
  case (Some y)
  then show ?thesis by (cases y) (simp_all add: vizGroups_def inVizGroup_simps)
qed

section \<open>Visibility tiers\<close>

text \<open>
  C4. The attribute section and the operator section of a class are the four tiers in
  the order Private, Internal, External, Public, each the members of that visibility in
  their original order. A member whose visibility is Public, None or absent is in the
  Public tier, and every member is in exactly one tier. A tier with no member renders
  as the empty text; a tier with members renders its heading and then its members.
\<close>

theorem visibility_tiers:
  "dotAttributeVisibilities umlClass =
     ''| ''
     @ dotAttributes ''Private''
         (filter (\<lambda>a. attribute_visibility a = Some Visibility_Private) (attributes umlClass))
     @ dotAttributes ''Internal''
         (filter (\<lambda>a. attribute_visibility a = Some Visibility_Internal) (attributes umlClass))
     @ dotAttributes ''External''
         (filter (\<lambda>a. attribute_visibility a = Some Visibility_External) (attributes umlClass))
     @ dotAttributes ''Public''
         (filter (\<lambda>a. attribute_visibility a = Some Visibility_Public
                      \<or> attribute_visibility a = Some Visibility_None
                      \<or> attribute_visibility a = None) (attributes umlClass))
   \<and> dotOperatorVisibilities umlClass =
     ''| ''
     @ dotOperators umlClass ''Private''
         (filter (\<lambda>a. operator_visibility a = Some Visibility_Private) (operators umlClass))
     @ dotOperators umlClass ''Internal''
         (filter (\<lambda>a. operator_visibility a = Some Visibility_Internal) (operators umlClass))
     @ dotOperators umlClass ''External''
         (filter (\<lambda>a. operator_visibility a = Some Visibility_External) (operators umlClass))
     @ dotOperators umlClass ''Public''
         (filter (\<lambda>a. operator_visibility a = Some Visibility_Public
                      \<or> operator_visibility a = Some Visibility_None
                      \<or> operator_visibility a = None) (operators umlClass))
   \<and> filter (\<lambda>vizGroup. inVizGroup vizGroup v) vizGroups =
       [case v of
          Some Visibility_Private \<Rightarrow> ''Private''
        | Some Visibility_Internal \<Rightarrow> ''Internal''
        | Some Visibility_External \<Rightarrow> ''External''
        | _ \<Rightarrow> ''Public'']
   \<and> dotAttributes vizGroup [] = ''''
   \<and> dotOperators umlClass vizGroup [] = ''''
   \<and> dotAttributes vizGroup (a # attrs) =
       vizGroup @ '':'' @ backslash @ ''l'' @ concat (map dotAttribute (a # attrs))
   \<and> dotOperators umlClass vizGroup (operator # ops) =
       vizGroup @ '':'' @ backslash @ ''l''
       @ concat (map (dotOperator umlClass) (operatorsSortedByStereotype (operator # ops)))"
proof -
  have A: "dotAttributeVisibilities umlClass =
     ''| ''
     @ dotAttributes ''Private''
         (filter (\<lambda>a. attribute_visibility a = Some Visibility_Private) (attributes umlClass))
     @ dotAttributes ''Internal''
         (filter (\<lambda>a. attribute_visibility a = Some Visibility_Internal) (attributes umlClass))
     @ dotAttributes ''External''
         (filter (\<lambda>a. attribute_visibility a = Some Visibility_External) (attributes umlClass))
     @ dotAttributes ''Public''
         (filter (\<lambda>a. attribute_visibility a = Some Visibility_Public
                      \<or> attribute_visibility a = Some Visibility_None
                      \<or> attribute_visibility a = None) (attributes umlClass))"
    by (simp add: dotAttributeVisibilities_def vizGroups_def inVizGroup_simps)
  have B: "dotOperatorVisibilities umlClass =
     ''| ''
     @ dotOperators umlClass ''Private''
         (filter (\<lambda>a. operator_visibility a = Some Visibility_Private) (operators umlClass))
     @ dotOperators umlClass ''Internal''
         (filter (\<lambda>a. operator_visibility a = Some Visibility_Internal) (operators umlClass))
     @ dotOperators umlClass ''External''
         (filter (\<lambda>a. operator_visibility a = Some Visibility_External) (operators umlClass))
     @ dotOperators umlClass ''Public''
         (filter (\<lambda>a. operator_visibility a = Some Visibility_Public
                      \<or> operator_visibility a = Some Visibility_None
                      \<or> operator_visibility a = None) (operators umlClass))"
    by (simp add: dotOperatorVisibilities_def vizGroups_def inVizGroup_simps)
  have C: "dotAttributes vizGroup [] = ''''" "dotOperators umlClass vizGroup [] = ''''"
    by (simp_all add: dotAttributes_concat dotOperators_concat)
  have D: "dotAttributes vizGroup (a # attrs) =
       vizGroup @ '':'' @ backslash @ ''l'' @ concat (map dotAttribute (a # attrs))"
    by (simp add: dotAttributes_concat)
  have E: "dotOperators umlClass vizGroup (operator # ops) =
       vizGroup @ '':'' @ backslash @ ''l''
       @ concat (map (dotOperator umlClass) (operatorsSortedByStereotype (operator # ops)))"
    by (simp add: dotOperators_concat)
  show ?thesis
    using A B C D E inVizGroup_one_tier [of v] by blast
qed

theorem visibility_tiers_witness:
  "dotAttributeVisibilities
     ((ex_class ''1'' ''Token'' ''a.sol'' None [] [])
        \<lparr>attributes := [ex_attribute ''b'' None, ex_attribute ''a'' (Some Visibility_Private),
                        ex_attribute ''c'' (Some Visibility_None)]\<rparr>)
     = ''| '' @ dotAttributes ''Private'' [ex_attribute ''a'' (Some Visibility_Private)]
       @ dotAttributes ''Public''
           [ex_attribute ''b'' None, ex_attribute ''c'' (Some Visibility_None)]
   \<and> filter (\<lambda>vizGroup. inVizGroup vizGroup None) vizGroups = [''Public'']
   \<and> dotAttributes ''External'' [] = ''''"
  using visibility_tiers
    [of "(ex_class ''1'' ''Token'' ''a.sol'' None [] [])
          \<lparr>attributes := [ex_attribute ''b'' None, ex_attribute ''a'' (Some Visibility_Private),
                          ex_attribute ''c'' (Some Visibility_None)]\<rparr>"
        None "''External''" "ex_attribute ''a'' None" "[]"
        "ex_operator ''f'' None OperatorStereotype_None" "[]"]
  by (simp add: ex_class_def ex_attribute_def dotAttributes_concat)

section \<open>Order of the operators in a tier\<close>

text \<open>
  C5. The operators of a tier are rendered in the order of
  \<open>operatorsSortedByStereotype\<close>: descending in the ordinal of the operator stereotype,
  a permutation of the tier, and the operators of any one stereotype in the order they
  have in the tier, which is the order they have in the operators of the class.
\<close>

theorem dotOperators_sorted_stable:
  "dotOperators umlClass vizGroup ops =
     (if ops = [] then ''''
      else vizGroup @ '':'' @ backslash @ ''l''
           @ concat (map (dotOperator umlClass) (operatorsSortedByStereotype ops)))
   \<and> sorted_wrt (\<lambda>a b. OperatorStereotype_ordinal (operator_stereotype a)
                        \<ge> OperatorStereotype_ordinal (operator_stereotype b))
       (operatorsSortedByStereotype ops)
   \<and> mset (operatorsSortedByStereotype ops) = mset ops
   \<and> filter (\<lambda>operator. operator_stereotype operator = k) (operatorsSortedByStereotype ops)
       = filter (\<lambda>operator. operator_stereotype operator = k) ops
   \<and> filter (\<lambda>operator. operator_stereotype operator = k)
         (operatorsSortedByStereotype
            (filter (\<lambda>operator. inVizGroup vizGroup (operator_visibility operator))
               (operators umlClass)))
       = filter (\<lambda>operator. inVizGroup vizGroup (operator_visibility operator)
                     \<and> operator_stereotype operator = k)
           (operators umlClass)"
proof -
  have "mset (operatorsSortedByStereotype ops) = mset ops"
    by (simp add: operatorsSortedByStereotype_sort_key)
  moreover have "filter (\<lambda>operator. operator_stereotype operator = k)
         (operatorsSortedByStereotype
            (filter (\<lambda>operator. inVizGroup vizGroup (operator_visibility operator))
               (operators umlClass)))
       = filter (\<lambda>operator. inVizGroup vizGroup (operator_visibility operator)
                     \<and> operator_stereotype operator = k)
           (operators umlClass)"
    by (simp add: operatorsSortedByStereotype_stable)
  ultimately show ?thesis
    using dotOperators_concat [of umlClass vizGroup ops]
      operatorsSortedByStereotype_descending [of ops]
      operatorsSortedByStereotype_stable [of k ops]
    by blast
qed

theorem dotOperators_sorted_stable_witness:
  "operatorsSortedByStereotype
     [ex_operator ''f'' None OperatorStereotype_None,
      ex_operator ''g'' None OperatorStereotype_Payable,
      ex_operator ''h'' None OperatorStereotype_None,
      ex_operator ''k'' None OperatorStereotype_Event,
      ex_operator ''m'' None OperatorStereotype_Payable]
     = [ex_operator ''g'' None OperatorStereotype_Payable,
        ex_operator ''m'' None OperatorStereotype_Payable,
        ex_operator ''k'' None OperatorStereotype_Event,
        ex_operator ''f'' None OperatorStereotype_None,
        ex_operator ''h'' None OperatorStereotype_None]
   \<and> filter (\<lambda>operator. operator_stereotype operator = OperatorStereotype_Payable)
       (operatorsSortedByStereotype
          [ex_operator ''f'' None OperatorStereotype_None,
           ex_operator ''g'' None OperatorStereotype_Payable,
           ex_operator ''h'' None OperatorStereotype_None,
           ex_operator ''k'' None OperatorStereotype_Event,
           ex_operator ''m'' None OperatorStereotype_Payable])
     = [ex_operator ''g'' None OperatorStereotype_Payable,
        ex_operator ''m'' None OperatorStereotype_Payable]"
  using dotOperators_sorted_stable
    [of "ex_class ''1'' ''Token'' ''a.sol'' None [] []" "''Public''"
        "[ex_operator ''f'' None OperatorStereotype_None,
          ex_operator ''g'' None OperatorStereotype_Payable,
          ex_operator ''h'' None OperatorStereotype_None,
          ex_operator ''k'' None OperatorStereotype_Event,
          ex_operator ''m'' None OperatorStereotype_Payable]"
        OperatorStereotype_Payable]
  by (simp add: operatorsSortedByStereotype_def Array_sort_def ex_operator_def)

section \<open>Glyph of an abstract operator\<close>

text \<open>
  C10. An operator is rendered as the indent, the prefix of its stereotype and its
  signature. The prefix of an Abstract operator is the abstract glyph and a space when
  the class has the Abstract stereotype, and the space alone in a class of any other
  stereotype or of none. The prefixes of Event, Fallback, Modifier and Payable operators
  are their glyph and a space whatever the class. No glyph is the empty text.
\<close>

theorem abstract_glyph_only_in_abstract_class:
  "(let indent = backslash @ '' '' @ backslash @ '' '' @ backslash @ '' '' @ backslash @ '' '';
        signature =
          operator_name operator
          @ dotParameters (operator_parameters operator) False
          @ (case operator_returnParameters operator of
               None \<Rightarrow> ''''
             | Some rs \<Rightarrow> (if length rs > 0 then '': '' @ dotParameters rs True else ''''))
          @ backslash @ ''l''
    in dotOperator umlClass operator =
         (case operator_stereotype operator of
            OperatorStereotype_None \<Rightarrow> indent @ signature
          | OperatorStereotype_Event \<Rightarrow> indent @ glyph_event @ '' '' @ signature
          | OperatorStereotype_Fallback \<Rightarrow> indent @ glyph_fallback @ '' '' @ signature
          | OperatorStereotype_Modifier \<Rightarrow> indent @ glyph_modifier @ '' '' @ signature
          | OperatorStereotype_Abstract \<Rightarrow>
              (if stereotype umlClass = Some ClassStereotype_Abstract
               then indent @ glyph_abstract @ '' '' @ signature
               else indent @ '' '' @ signature)
          | OperatorStereotype_Payable \<Rightarrow> indent @ glyph_payable @ '' '' @ signature))
   \<and> dotOperatorStereotype umlClass OperatorStereotype_Abstract =
       (if stereotype umlClass = Some ClassStereotype_Abstract then glyph_abstract @ '' ''
        else '' '')
   \<and> dotOperatorStereotype umlClass OperatorStereotype_Event = glyph_event @ '' ''
   \<and> dotOperatorStereotype umlClass OperatorStereotype_Fallback = glyph_fallback @ '' ''
   \<and> dotOperatorStereotype umlClass OperatorStereotype_Modifier = glyph_modifier @ '' ''
   \<and> dotOperatorStereotype umlClass OperatorStereotype_Payable = glyph_payable @ '' ''
   \<and> glyph_abstract \<noteq> '''' \<and> glyph_event \<noteq> '''' \<and> glyph_fallback \<noteq> ''''
   \<and> glyph_modifier \<noteq> '''' \<and> glyph_payable \<noteq> ''''"
  by (cases "operator_stereotype operator")
     (simp_all add: Let_def dotOperator_def dotOperatorStereotype_def glyph_abstract_def
        glyph_event_def glyph_fallback_def glyph_modifier_def glyph_payable_def)

theorem abstract_glyph_only_in_abstract_class_witness:
  "dotOperator (ex_class ''1'' ''Token'' ''a.sol'' None [] [])
     (ex_operator ''f'' None OperatorStereotype_Abstract)
     = backslash @ '' '' @ backslash @ '' '' @ backslash @ '' '' @ backslash @ '' ''
       @ '' f()'' @ backslash @ ''l''
   \<and> dotOperator (ex_class ''1'' ''Token'' ''a.sol'' (Some ClassStereotype_Abstract) [] [])
     (ex_operator ''f'' None OperatorStereotype_Abstract)
     = backslash @ '' '' @ backslash @ '' '' @ backslash @ '' '' @ backslash @ '' ''
       @ glyph_abstract @ '' f()'' @ backslash @ ''l''"
  using abstract_glyph_only_in_abstract_class
      [of "ex_operator ''f'' None OperatorStereotype_Abstract"
          "ex_class ''1'' ''Token'' ''a.sol'' None [] []"]
    abstract_glyph_only_in_abstract_class
      [of "ex_operator ''f'' None OperatorStereotype_Abstract"
          "ex_class ''1'' ''Token'' ''a.sol'' (Some ClassStereotype_Abstract) [] []"]
  by (simp add: ex_class_def ex_operator_def Let_def dotParameters_def)

section \<open>Edges\<close>

lemma foldl_case_append_concat:
  "foldl (\<lambda>acc x. case g x of None \<Rightarrow> acc | Some t \<Rightarrow> acc @ f x t) a xs
     = a @ concat (map (\<lambda>x. case g x of None \<Rightarrow> [] | Some t \<Rightarrow> f x t) xs)"
  by (induction xs arbitrary: a) (simp_all split: option.split)

lemma foldl_append_concat_inner:
  "foldl (\<lambda>acc x. foldl (h x) acc (ys x)) a xs = a @ concat (map f xs)"
  if "\<And>acc x. foldl (h x) acc (ys x) = acc @ f x"
  by (induction xs arbitrary: a) (simp_all add: that)

lemma addAssociationsToDot_concat:
  "addAssociationsToDot umlClasses classOptions =
     concat (map (\<lambda>sourceUmlClass.
       concat (map (\<lambda>association.
         case find (isTargetOf sourceUmlClass association) umlClasses of
           None \<Rightarrow> ''''
         | Some targetUmlClass \<Rightarrow>
             addAssociationToDot sourceUmlClass targetUmlClass association classOptions)
         (map snd (associations sourceUmlClass))))
       umlClasses)"
proof -
  have "foldl (\<lambda>acc x. foldl (\<lambda>dotString association.
                       case find (isTargetOf x association) umlClasses of
                         None \<Rightarrow> dotString
                       | Some targetUmlClass \<Rightarrow>
                           dotString @ addAssociationToDot x targetUmlClass
                                         association classOptions) acc (map snd (associations x)))
          [] umlClasses
        = [] @ concat (map (\<lambda>sourceUmlClass.
       concat (map (\<lambda>association.
         case find (isTargetOf sourceUmlClass association) umlClasses of
           None \<Rightarrow> ''''
         | Some targetUmlClass \<Rightarrow>
             addAssociationToDot sourceUmlClass targetUmlClass association classOptions)
         (map snd (associations sourceUmlClass))))
       umlClasses)"
    by (rule foldl_append_concat_inner) (rule foldl_case_append_concat)
  then show ?thesis
    by (simp add: addAssociationsToDot_def)
qed

lemma addAssociationsToDot_resolved:
  "addAssociationsToDot umlClasses classOptions =
     concat (map (\<lambda>(s, t, a). addAssociationToDot s t a classOptions)
               (resolvedAssociations umlClasses))"
proof -
  have inner: "concat (map (\<lambda>(s, t, a). addAssociationToDot s t a classOptions)
                  (concat (map (\<lambda>a. case find (isTargetOf s a) umlClasses of
                                       None \<Rightarrow> [] | Some t \<Rightarrow> [(s, t, a)]) as)))
               = concat (map (\<lambda>a. case find (isTargetOf s a) umlClasses of
                                     None \<Rightarrow> ''''
                                   | Some t \<Rightarrow> addAssociationToDot s t a classOptions) as)"
    for s as
    by (induction as) (simp_all split: option.split)
  have outer: "concat (map (\<lambda>(s, t, a). addAssociationToDot s t a classOptions)
                  (concat (map (\<lambda>s. concat (map (\<lambda>a. case find (isTargetOf s a) umlClasses of
                                       None \<Rightarrow> [] | Some t \<Rightarrow> [(s, t, a)])
                                   (map snd (associations s)))) cs)))
               = concat (map (\<lambda>s. concat (map (\<lambda>a. case find (isTargetOf s a) umlClasses of
                                     None \<Rightarrow> ''''
                                   | Some t \<Rightarrow> addAssociationToDot s t a classOptions)
                                   (map snd (associations s)))) cs)"
    for cs
    by (induction cs) (simp_all add: inner del: map_map)
  show ?thesis
    unfolding addAssociationsToDot_concat resolvedAssociations_def
    by (rule outer [symmetric])
qed

lemma addAssociationToDot_hidden:
  "hiddenClass classOptions targetUmlClass \<Longrightarrow>
     addAssociationToDot sourceUmlClass targetUmlClass association classOptions = ''''"
  by (simp add: addAssociationToDot_def)

lemma concat_map_filter_nonempty:
  "(\<And>x. x \<in> set xs \<Longrightarrow> \<not> P x \<Longrightarrow> f x = []) \<Longrightarrow>
     concat (map f (filter P xs)) = concat (map f xs)"
  by (induction xs) simp_all

text \<open>
  C1. The text of the edges is, for each source class in list order and each of its
  associations in order, the edge to the class that \<^verbatim>\<open>find\<close> returns, and nothing
  when it returns none. \<^verbatim>\<open>find\<close> returns the first class of the list, by index, whose
  name is the target class name of the association and whose code path is among the
  imported paths of the source or is the code path of the source. The edge of a target
  that is not hidden starts with the source's id, the arrow and the target's id.
\<close>

theorem addAssociationsToDot_first_match:
  "addAssociationsToDot umlClasses classOptions =
     concat (map (\<lambda>sourceUmlClass.
       concat (map (\<lambda>association.
         case find (isTargetOf sourceUmlClass association) umlClasses of
           None \<Rightarrow> ''''
         | Some targetUmlClass \<Rightarrow>
             addAssociationToDot sourceUmlClass targetUmlClass association classOptions)
         (map snd (associations sourceUmlClass))))
       umlClasses)
   \<and> (find (isTargetOf source association) umlClasses = Some target
        \<longleftrightarrow> (\<exists>i < length umlClasses.
               umlClasses ! i = target \<and> isTargetOf source association target
               \<and> (\<forall>j < i. \<not> isTargetOf source association (umlClasses ! j))))
   \<and> (isTargetOf source association target
        \<longleftrightarrow> class_name target = targetUmlClassName association
            \<and> (codePath target \<in> set (importedPaths source)
               \<or> codePath target = codePath source))
   \<and> (\<not> hiddenClass classOptions target \<longrightarrow>
        prefix (newline @ class_id source @ '' -> '' @ class_id target @ '' ['')
          (addAssociationToDot source target association classOptions))"
proof -
  have "find (isTargetOf source association) umlClasses = Some target
        \<longleftrightarrow> (\<exists>i < length umlClasses.
               umlClasses ! i = target \<and> isTargetOf source association target
               \<and> (\<forall>j < i. \<not> isTargetOf source association (umlClasses ! j)))"
    by (auto simp: find_Some_iff)
  moreover have "isTargetOf source association target
        \<longleftrightarrow> class_name target = targetUmlClassName association
            \<and> (codePath target \<in> set (importedPaths source)
               \<or> codePath target = codePath source)"
    by (auto simp: isTargetOf_def)
  moreover have "\<not> hiddenClass classOptions target \<longrightarrow>
        prefix (newline @ class_id source @ '' -> '' @ class_id target @ '' ['')
          (addAssociationToDot source target association classOptions)"
    by (simp add: addAssociationToDot_def)
  ultimately show ?thesis
    using addAssociationsToDot_concat [of umlClasses classOptions] by blast
qed

text \<open>
  Two classes named Foo, in \<^verbatim>\<open>B.sol\<close> and in \<^verbatim>\<open>A.sol\<close>, and a class of \<^verbatim>\<open>C.sol\<close> that
  imports \<^verbatim>\<open>A.sol\<close> only: its association to Foo is the edge to the Foo of \<^verbatim>\<open>A.sol\<close>,
  though the Foo of \<^verbatim>\<open>B.sol\<close> comes first in the list.
\<close>

theorem addAssociationsToDot_first_match_witness:
  "find (isTargetOf
           (ex_class ''3'' ''Bar'' ''C.sol'' None
              [(''Foo'', ex_association ''Foo'' ReferenceType_Storage False)] [''A.sol''])
           (ex_association ''Foo'' ReferenceType_Storage False))
     [ex_class ''1'' ''Foo'' ''B.sol'' None [] [],
      ex_class ''2'' ''Foo'' ''A.sol'' None [] [],
      ex_class ''3'' ''Bar'' ''C.sol'' None
        [(''Foo'', ex_association ''Foo'' ReferenceType_Storage False)] [''A.sol'']]
     = Some (ex_class ''2'' ''Foo'' ''A.sol'' None [] [])
   \<and> addAssociationsToDot
       [ex_class ''1'' ''Foo'' ''B.sol'' None [] [],
        ex_class ''2'' ''Foo'' ''A.sol'' None [] [],
        ex_class ''3'' ''Bar'' ''C.sol'' None
          [(''Foo'', ex_association ''Foo'' ReferenceType_Storage False)] [''A.sol'']]
       (ex_options False False)
     = newline @ ''3 -> 2 []''
   \<and> prefix (newline @ ''3 -> 2 ['')
       (addAssociationToDot
          (ex_class ''3'' ''Bar'' ''C.sol'' None
             [(''Foo'', ex_association ''Foo'' ReferenceType_Storage False)] [''A.sol''])
          (ex_class ''2'' ''Foo'' ''A.sol'' None [] [])
          (ex_association ''Foo'' ReferenceType_Storage False) (ex_options False False))"
  using addAssociationsToDot_first_match
    [of "[ex_class ''1'' ''Foo'' ''B.sol'' None [] [],
          ex_class ''2'' ''Foo'' ''A.sol'' None [] [],
          ex_class ''3'' ''Bar'' ''C.sol'' None
            [(''Foo'', ex_association ''Foo'' ReferenceType_Storage False)] [''A.sol'']]"
        "ex_options False False"
        "ex_class ''3'' ''Bar'' ''C.sol'' None
           [(''Foo'', ex_association ''Foo'' ReferenceType_Storage False)] [''A.sol'']"
        "ex_association ''Foo'' ReferenceType_Storage False"
        "ex_class ''2'' ''Foo'' ''A.sol'' None [] []"]
  by (simp add: ex_class_def ex_association_def ex_options_def isTargetOf_def
        addAssociationToDot_def hiddenClass_def ClassStereotype_falsy_def newline_def)

text \<open>
  C2. With \<open>hideLibraries\<close> set, a class of the Library stereotype renders as the empty
  text and so does every edge to it, whatever the source and the association; the same
  with \<open>hideInterfaces\<close> and the Interface stereotype. The text of the edges is the text
  of the resolved associations whose target is not hidden, in order.
\<close>

theorem hidden_stereotypes_suppressed:
  "((hideLibraries classOptions \<and> stereotype umlClass = Some ClassStereotype_Library)
      \<or> (hideInterfaces classOptions \<and> stereotype umlClass = Some ClassStereotype_Interface)
     \<longrightarrow> dotUmlClass umlClass classOptions = ''''
         \<and> addAssociationToDot sourceUmlClass umlClass association classOptions = '''')
   \<and> addAssociationsToDot umlClasses classOptions =
       concat (map (\<lambda>(s, t, a). addAssociationToDot s t a classOptions)
                 (filter (\<lambda>(s, t, a). \<not> hiddenClass classOptions t)
                    (resolvedAssociations umlClasses)))
   \<and> (hiddenClass classOptions umlClass
        \<longleftrightarrow> (hideLibraries classOptions \<and> stereotype umlClass = Some ClassStereotype_Library)
            \<or> (hideInterfaces classOptions
               \<and> stereotype umlClass = Some ClassStereotype_Interface))"
proof -
  have "concat (map (\<lambda>(s, t, a). addAssociationToDot s t a classOptions)
                 (filter (\<lambda>(s, t, a). \<not> hiddenClass classOptions t)
                    (resolvedAssociations umlClasses)))
        = concat (map (\<lambda>(s, t, a). addAssociationToDot s t a classOptions)
                    (resolvedAssociations umlClasses))"
    by (rule concat_map_filter_nonempty) (auto simp: addAssociationToDot_hidden)
  then show ?thesis
    by (simp add: addAssociationsToDot_resolved hiddenClass_def dotUmlClass_def
          addAssociationToDot_def)
qed

text \<open>
  A hidden library: no node, and no edge from the contract that uses it; the edge from
  the library to the contract stays.
\<close>

theorem hidden_stereotypes_suppressed_witness:
  "dotUmlClass
     (ex_class ''1'' ''SafeMath'' ''a.sol'' (Some ClassStereotype_Library)
        [(''Token'', ex_association ''Token'' ReferenceType_Storage False)] [])
     (ex_options True False) = ''''
   \<and> addAssociationsToDot
       [ex_class ''1'' ''SafeMath'' ''a.sol'' (Some ClassStereotype_Library)
          [(''Token'', ex_association ''Token'' ReferenceType_Storage False)] [],
        ex_class ''2'' ''Token'' ''a.sol'' None
          [(''SafeMath'', ex_association ''SafeMath'' ReferenceType_Memory False)] []]
       (ex_options True False)
     = newline @ ''1 -> 2 []''"
  using hidden_stereotypes_suppressed
    [of "ex_options True False"
        "ex_class ''1'' ''SafeMath'' ''a.sol'' (Some ClassStereotype_Library)
           [(''Token'', ex_association ''Token'' ReferenceType_Storage False)] []"
        "ex_class ''2'' ''Token'' ''a.sol'' None
           [(''SafeMath'', ex_association ''SafeMath'' ReferenceType_Memory False)] []"
        "ex_association ''SafeMath'' ReferenceType_Memory False"
        "[ex_class ''1'' ''SafeMath'' ''a.sol'' (Some ClassStereotype_Library)
            [(''Token'', ex_association ''Token'' ReferenceType_Storage False)] [],
          ex_class ''2'' ''Token'' ''a.sol'' None
            [(''SafeMath'', ex_association ''SafeMath'' ReferenceType_Memory False)] []]"]
  by (simp add: ex_class_def ex_association_def ex_options_def isTargetOf_def
        addAssociationToDot_def hiddenClass_def ClassStereotype_falsy_def newline_def
        resolvedAssociations_def)

lemma sublist_edge_attributes:
  "\<not> sublist ''style=dashed'' ''arrowhead=empty, arrowsize=3, weight=4, ''"
  "sublist ''arrowhead=empty'' ''arrowhead=empty, arrowsize=3, weight=4, ''"
  "sublist ''weight=4'' ''arrowhead=empty, arrowsize=3, weight=4, ''"
  "\<not> sublist ''weight=3'' ''arrowhead=empty, arrowsize=3, weight=4, ''"
  "sublist ''arrowhead'' ''arrowhead=empty, arrowsize=3, weight=4, ''"
  "sublist ''weight'' ''arrowhead=empty, arrowsize=3, weight=4, ''"
  "\<not> sublist ''style=dashed'' ''arrowhead=empty, arrowsize=3, weight=3, ''"
  "sublist ''arrowhead=empty'' ''arrowhead=empty, arrowsize=3, weight=3, ''"
  "\<not> sublist ''weight=4'' ''arrowhead=empty, arrowsize=3, weight=3, ''"
  "sublist ''weight=3'' ''arrowhead=empty, arrowsize=3, weight=3, ''"
  "sublist ''arrowhead'' ''arrowhead=empty, arrowsize=3, weight=3, ''"
  "sublist ''weight'' ''arrowhead=empty, arrowsize=3, weight=3, ''"
  "sublist ''style=dashed'' ''style=dashed, ''"
  "\<not> sublist ''arrowhead=empty'' ''style=dashed, ''"
  "\<not> sublist ''weight=4'' ''style=dashed, ''"
  "\<not> sublist ''weight=3'' ''style=dashed, ''"
  "\<not> sublist ''arrowhead'' ''style=dashed, ''"
  "\<not> sublist ''weight'' ''style=dashed, ''"
  "sublist ''style=dashed'' ''style=dashed, arrowhead=empty, arrowsize=3, weight=4, ''"
  "sublist ''arrowhead=empty'' ''style=dashed, arrowhead=empty, arrowsize=3, weight=4, ''"
  "sublist ''weight=4'' ''style=dashed, arrowhead=empty, arrowsize=3, weight=4, ''"
  "\<not> sublist ''weight=3'' ''style=dashed, arrowhead=empty, arrowsize=3, weight=4, ''"
  "sublist ''arrowhead'' ''style=dashed, arrowhead=empty, arrowsize=3, weight=4, ''"
  "sublist ''weight'' ''style=dashed, arrowhead=empty, arrowsize=3, weight=4, ''"
  "sublist ''style=dashed'' ''style=dashed, arrowhead=empty, arrowsize=3, weight=3, ''"
  "sublist ''arrowhead=empty'' ''style=dashed, arrowhead=empty, arrowsize=3, weight=3, ''"
  "\<not> sublist ''weight=4'' ''style=dashed, arrowhead=empty, arrowsize=3, weight=3, ''"
  "sublist ''weight=3'' ''style=dashed, arrowhead=empty, arrowsize=3, weight=3, ''"
  "sublist ''arrowhead'' ''style=dashed, arrowhead=empty, arrowsize=3, weight=3, ''"
  "sublist ''weight'' ''style=dashed, arrowhead=empty, arrowsize=3, weight=3, ''"
  by code_simp+

text \<open>
  C7. The edge of a target that is not hidden is the source's id, the arrow, the
  target's id and the bracketed attributes. The attributes hold \<^verbatim>\<open>style=dashed\<close> exactly
  when the reference type is Memory, or the association is a realization and the target
  has the Interface stereotype. They hold \<^verbatim>\<open>arrowhead=empty\<close> exactly when the
  association is a realization, \<^verbatim>\<open>weight=4\<close> exactly when it is a realization and the
  target's stereotype is absent or None, \<^verbatim>\<open>weight=3\<close> exactly when it is a realization
  and the target has another stereotype; an edge that is no realization holds neither
  an arrowhead nor a weight.
\<close>

theorem addAssociationToDot_styles:
  "\<not> hiddenClass classOptions targetUmlClass \<Longrightarrow>
   \<exists>attrs.
     addAssociationToDot sourceUmlClass targetUmlClass association classOptions =
       newline @ class_id sourceUmlClass @ '' -> '' @ class_id targetUmlClass
       @ '' ['' @ attrs @ '']''
     \<and> (sublist ''style=dashed'' attrs \<longleftrightarrow>
          referenceType association = ReferenceType_Memory
          \<or> (realization association
              \<and> stereotype targetUmlClass = Some ClassStereotype_Interface))
     \<and> (sublist ''arrowhead=empty'' attrs \<longleftrightarrow> realization association)
     \<and> (sublist ''weight=4'' attrs \<longleftrightarrow>
          realization association
          \<and> (stereotype targetUmlClass = None
              \<or> stereotype targetUmlClass = Some ClassStereotype_None))
     \<and> (sublist ''weight=3'' attrs \<longleftrightarrow>
          realization association
          \<and> stereotype targetUmlClass \<noteq> None
          \<and> stereotype targetUmlClass \<noteq> Some ClassStereotype_None)
     \<and> (sublist ''arrowhead'' attrs \<longleftrightarrow> realization association)
     \<and> (sublist ''weight'' attrs \<longleftrightarrow> realization association)"
proof -
  assume visible: "\<not> hiddenClass classOptions targetUmlClass"
  let ?dashed = "referenceType association = ReferenceType_Memory
          \<or> (realization association
              \<and> stereotype targetUmlClass = Some ClassStereotype_Interface)"
  let ?untyped = "stereotype targetUmlClass = None
              \<or> stereotype targetUmlClass = Some ClassStereotype_None"
  let ?attrs = "(if ?dashed then ''style=dashed, '' else '''')
        @ (if realization association
           then ''arrowhead=empty, arrowsize=3, ''
                @ (if ?untyped then ''weight=4, '' else ''weight=3, '')
           else '''')"
  have edge: "addAssociationToDot sourceUmlClass targetUmlClass association classOptions =
       newline @ class_id sourceUmlClass @ '' -> '' @ class_id targetUmlClass
       @ '' ['' @ ?attrs @ '']''"
    using visible by (simp add: addAssociationToDot_def ClassStereotype_falsy_def)
  have dashed: "sublist ''style=dashed'' ?attrs \<longleftrightarrow> ?dashed"
    by (cases ?dashed; cases "realization association"; cases ?untyped)
       (simp_all add: sublist_edge_attributes)
  have arrow: "sublist ''arrowhead=empty'' ?attrs \<longleftrightarrow> realization association"
    by (cases ?dashed; cases "realization association"; cases ?untyped)
       (simp_all add: sublist_edge_attributes)
  have w4: "sublist ''weight=4'' ?attrs \<longleftrightarrow> realization association \<and> ?untyped"
    by (cases ?dashed; cases "realization association"; cases ?untyped)
       (simp_all add: sublist_edge_attributes)
  have w3: "sublist ''weight=3'' ?attrs \<longleftrightarrow> realization association \<and> \<not> ?untyped"
    by (cases ?dashed; cases "realization association"; cases ?untyped)
       (simp_all add: sublist_edge_attributes)
  have arrow': "sublist ''arrowhead'' ?attrs \<longleftrightarrow> realization association"
    by (cases ?dashed; cases "realization association"; cases ?untyped)
       (simp_all add: sublist_edge_attributes)
  have w: "sublist ''weight'' ?attrs \<longleftrightarrow> realization association"
    by (cases ?dashed; cases "realization association"; cases ?untyped)
       (simp_all add: sublist_edge_attributes)
  have w3': "sublist ''weight=3'' ?attrs \<longleftrightarrow>
          realization association
          \<and> stereotype targetUmlClass \<noteq> None
          \<and> stereotype targetUmlClass \<noteq> Some ClassStereotype_None"
    using w3 by simp
  show ?thesis
    by (intro exI [of _ ?attrs] conjI) (fact edge dashed arrow w4 w3' arrow' w)+
qed

theorem addAssociationToDot_styles_witness:
  "\<not> hiddenClass (ex_options False False)
       (ex_class ''2'' ''IToken'' ''a.sol'' (Some ClassStereotype_Interface) [] [])
   \<and> addAssociationToDot
       (ex_class ''1'' ''Token'' ''a.sol'' None [] [])
       (ex_class ''2'' ''IToken'' ''a.sol'' (Some ClassStereotype_Interface) [] [])
       (ex_association ''IToken'' ReferenceType_Storage True) (ex_options False False)
     = newline @ ''1 -> 2 [style=dashed, arrowhead=empty, arrowsize=3, weight=3, ]''"
proof -
  have visible: "\<not> hiddenClass (ex_options False False)
       (ex_class ''2'' ''IToken'' ''a.sol'' (Some ClassStereotype_Interface) [] [])"
    by (simp add: hiddenClass_def ex_options_def)
  from addAssociationToDot_styles
    [OF visible, of "ex_class ''1'' ''Token'' ''a.sol'' None [] []"
       "ex_association ''IToken'' ReferenceType_Storage True"]
  show ?thesis
    using visible
    by (simp add: addAssociationToDot_def ex_class_def ex_association_def
          ClassStereotype_falsy_def)
qed

section \<open>Subgraphs\<close>

lemma sortUmlClassesByCodePath_sorted:
  "sorted (map codePath (sortUmlClassesByCodePath umlClasses))"
  by (simp add: sortUmlClassesByCodePath_sort_key)

lemma sortUmlClassesByCodePath_idem:
  "sortUmlClassesByCodePath (sortUmlClassesByCodePath umlClasses)
     = sortUmlClassesByCodePath umlClasses"
  by (simp add: sortUmlClassesByCodePath_sort_key sort_key_id_if_sorted)

lemma Number_toString_nonempty: "Number_toString n \<noteq> []"
  by (subst Number_toString.simps) simp

lemma digit10_inj: "digit10 a = digit10 b \<Longrightarrow> a mod 10 = b mod 10"
proof -
  assume eq: "digit10 a = digit10 b"
  have d: "distinct ''0123456789''" by simp
  have "a mod 10 < length ''0123456789''" "b mod 10 < length ''0123456789''" by simp_all
  with d eq show ?thesis
    unfolding digit10_def by (simp only: nth_eq_iff_index_eq)
qed

lemma Number_toString_inj: "Number_toString a = Number_toString b \<Longrightarrow> a = b"
proof (induction a arbitrary: b rule: Number_toString.induct)
  case (1 n)
  show ?case
  proof (cases "n < 10")
    case small: True
    show ?thesis
    proof (cases "b < 10")
      case True
      with small "1.prems" have "digit10 n = digit10 b"
        by (simp add: Number_toString.simps [of n] Number_toString.simps [of b])
      then have "n mod 10 = b mod 10" by (rule digit10_inj)
      with small True show ?thesis by simp
    next
      case False
      with small "1.prems" have "[digit10 n] = Number_toString (b div 10) @ [digit10 b]"
        by (simp add: Number_toString.simps [of n] Number_toString.simps [of b])
      then show ?thesis using Number_toString_nonempty [of "b div 10"] by simp
    qed
  next
    case big: False
    show ?thesis
    proof (cases "b < 10")
      case True
      with big "1.prems" have "Number_toString (n div 10) @ [digit10 n] = [digit10 b]"
        by (simp add: Number_toString.simps [of n] Number_toString.simps [of b])
      then show ?thesis using Number_toString_nonempty [of "n div 10"] by simp
    next
      case False
      with big "1.prems" have
        "Number_toString (n div 10) @ [digit10 n] = Number_toString (b div 10) @ [digit10 b]"
        by (simp add: Number_toString.simps [of n] Number_toString.simps [of b])
      then have "Number_toString (n div 10) = Number_toString (b div 10)"
        and "digit10 n = digit10 b" by simp_all
      then have "n div 10 = b div 10" and "n mod 10 = b mod 10"
        using "1.IH" [OF big] digit10_inj by blast+
      then show ?thesis by (metis div_mult_mod_eq)
    qed
  qed
qed

lemma getSubGraphName_eq:
  "getSubGraphName clusterFolders subGraphCount =
     ((if clusterFolders then '' cluster_'' else '' graph_'') @ Number_toString subGraphCount,
      subGraphCount + 1)"
  by (simp add: getSubGraphName_def)

lemma getSubGraphName_distinct:
  "distinct (map (\<lambda>i. fst (getSubGraphName clusterFolders i)) [n ..< n + k])"
proof -
  have "inj_on (\<lambda>i. fst (getSubGraphName clusterFolders i)) (set [n ..< n + k])"
    by (rule inj_onI) (auto simp: getSubGraphName_eq dest: Number_toString_inj)
  then show ?thesis by (simp add: distinct_map)
qed

lemma folderRuns_concat: "concat (map snd (folderRuns dirname cs)) = cs"
  by (induction dirname cs rule: folderRuns.induct) simp_all

lemma takeWhile_all: "\<forall>x \<in> set (takeWhile P xs). P x"
  by (induction xs) auto

lemma folderRuns_uniform:
  "(folder, run) \<in> set (folderRuns dirname cs) \<Longrightarrow>
     run \<noteq> [] \<and> (\<forall>c \<in> set run. dirname (codePath c) = folder)"
proof (induction dirname cs rule: folderRuns.induct)
  case (1 dirname)
  then show ?case by simp
next
  case (2 dirname c cs)
  let ?P = "\<lambda>x. dirname (codePath x) = dirname (codePath c)"
  from "2.prems" have
    "(folder, run) = (dirname (codePath c), c # takeWhile ?P cs)
       \<or> (folder, run) \<in> set (folderRuns dirname (dropWhile ?P cs))"
    by (simp only: folderRuns.simps set_simps insert_iff)
  then show ?case
  proof
    assume "(folder, run) = (dirname (codePath c), c # takeWhile ?P cs)"
    then have head: "folder = dirname (codePath c)" "run = c # takeWhile ?P cs"
      by simp_all
    have all: "\<forall>x \<in> set (takeWhile ?P cs). ?P x"
      by (rule takeWhile_all [of ?P cs])
    have "\<forall>x \<in> set (c # takeWhile ?P cs). ?P x"
    proof (intro ballI)
      fix x assume "x \<in> set (c # takeWhile ?P cs)"
      then have "x = c \<or> x \<in> set (takeWhile ?P cs)" by simp
      then show "?P x" using all by blast
    qed
    then show ?thesis unfolding head by blast
  next
    assume "(folder, run) \<in> set (folderRuns dirname (dropWhile ?P cs))"
    then show ?thesis by (rule "2.IH")
  qed
qed

lemma folderRuns_hd:
  "cs \<noteq> [] \<Longrightarrow> fst (hd (folderRuns dirname cs)) = dirname (codePath (hd cs))"
  by (cases cs) simp_all

lemma folderRuns_Nil_iff: "folderRuns dirname cs = [] \<longleftrightarrow> cs = []"
  by (cases cs) simp_all

lemma folderRuns_maximal: "distinct_adj (map fst (folderRuns dirname cs))"
proof (induction dirname cs rule: folderRuns.induct)
  case (1 dirname)
  show ?case by simp
next
  case (2 dirname c cs)
  let ?rest = "dropWhile (\<lambda>x. dirname (codePath x) = dirname (codePath c)) cs"
  show ?case
  proof (cases "?rest = []")
    case True
    then have "folderRuns dirname ?rest = []"
      by (simp only: folderRuns.simps)
    then show ?thesis by simp
  next
    case False
    then have "dirname (codePath (hd ?rest)) \<noteq> dirname (codePath c)"
      using hd_dropWhile [of "\<lambda>x. dirname (codePath x) = dirname (codePath c)" cs] by simp
    with False 2 show ?thesis
      by (simp add: distinct_adj_Cons folderRuns_Nil_iff hd_map folderRuns_hd)
  qed
qed

lemma subgraphs_loop_run:
  "\<forall>x \<in> set xs. dirname (codePath x) = currentCodeFolder \<Longrightarrow>
     subgraphs_loop dirname clusterFolders classOptions (xs @ rest)
       (dotString, currentCodeFolder, subGraphCount)
     = subgraphs_loop dirname clusterFolders classOptions rest
         (dotString @ concat (map (\<lambda>c. dotUmlClass c classOptions) xs),
          currentCodeFolder, subGraphCount)"
  by (induction xs arbitrary: dotString) simp_all

lemma subgraphs_loop_blocks:
  "\<forall>p. dirname p \<noteq> '''' \<Longrightarrow>
    cs = [] \<or> dirname (codePath (hd cs)) \<noteq> currentCodeFolder \<Longrightarrow>
    subgraphs_loop dirname clusterFolders classOptions cs
      (dotString, currentCodeFolder, subGraphCount) = (dotString', currentCodeFolder', subGraphCount')
    \<Longrightarrow>
    dotString' @ (if currentCodeFolder' \<noteq> '''' then newline @ ''}'' else '''')
      = dotString @ (if currentCodeFolder \<noteq> '''' then newline @ ''}'' else '''')
        @ concat (map (subgraphBlock clusterFolders classOptions)
            (zip [subGraphCount ..< subGraphCount + length (folderRuns dirname cs)]
               (folderRuns dirname cs)))
    \<and> subGraphCount' = subGraphCount + length (folderRuns dirname cs)"
proof (induction dirname cs arbitrary: dotString currentCodeFolder subGraphCount
         rule: folderRuns.induct)
  case (1 dirname)
  then show ?case by simp
next
  case (2 dirname c cs)
  let ?f = "dirname (codePath c)"
  let ?P = "\<lambda>x. dirname (codePath x) = ?f"
  let ?run = "takeWhile ?P cs"
  let ?rest = "dropWhile ?P cs"
  let ?pend = "if currentCodeFolder \<noteq> '''' then newline @ ''}'' else ''''"
  let ?dot2 = "dotString @ ?pend @ newline @ ''subgraph ''
      @ fst (getSubGraphName clusterFolders subGraphCount) @ '' {'' @ newline
      @ ''label='' @ dquote @ ?f @ dquote"
  let ?dot3 = "(?dot2 @ dotUmlClass c classOptions)
      @ concat (map (\<lambda>c. dotUmlClass c classOptions) ?run)"
  from "2.prems"(2) have new: "currentCodeFolder \<noteq> ?f" by auto
  have split: "cs = ?run @ ?rest" by simp
  have "subgraphs_loop dirname clusterFolders classOptions (c # cs)
          (dotString, currentCodeFolder, subGraphCount)
        = subgraphs_loop dirname clusterFolders classOptions cs
            (?dot2 @ dotUmlClass c classOptions, ?f, Suc subGraphCount)"
    using new by (simp add: getSubGraphName_eq Let_def)
  also have "\<dots> = subgraphs_loop dirname clusterFolders classOptions (?run @ ?rest)
            (?dot2 @ dotUmlClass c classOptions, ?f, Suc subGraphCount)"
    by simp
  also have "\<dots> = subgraphs_loop dirname clusterFolders classOptions ?rest
            (?dot3, ?f, Suc subGraphCount)"
    by (rule subgraphs_loop_run) (rule takeWhile_all [of ?P cs])
  finally have step: "subgraphs_loop dirname clusterFolders classOptions ?rest
            (?dot3, ?f, Suc subGraphCount) = (dotString', currentCodeFolder', subGraphCount')"
    using "2.prems"(3) by simp
  have pre: "?rest = [] \<or> dirname (codePath (hd ?rest)) \<noteq> ?f"
    using hd_dropWhile [of ?P cs] by auto
  note IH = "2.IH" [OF "2.prems"(1) pre step]
  have f_ne: "?f \<noteq> ''''" using "2.prems"(1) by simp
  let ?runs = "folderRuns dirname ?rest"
  have zip: "zip [subGraphCount ..< subGraphCount + length (folderRuns dirname (c # cs))]
               (folderRuns dirname (c # cs))
             = (subGraphCount, ?f, c # ?run)
               # zip [Suc subGraphCount ..< Suc subGraphCount + length ?runs] ?runs"
  proof -
    have "[subGraphCount ..< subGraphCount + Suc (length ?runs)]
            = subGraphCount # [Suc subGraphCount ..< Suc subGraphCount + length ?runs]"
      by (simp add: upt_conv_Cons del: upt_Suc)
    then show ?thesis by simp
  qed
  have block: "?dot3 @ newline @ ''}''
      = dotString @ ?pend @ subgraphBlock clusterFolders classOptions (subGraphCount, ?f, c # ?run)"
    by (simp add: subgraphBlock_def)
  from IH f_ne have
    "dotString' @ (if currentCodeFolder' \<noteq> '''' then newline @ ''}'' else '''')
       = (?dot3 @ newline @ ''}'')
         @ concat (map (subgraphBlock clusterFolders classOptions)
             (zip [Suc subGraphCount ..< Suc subGraphCount + length ?runs] ?runs))"
    and cnt: "subGraphCount' = Suc subGraphCount + length ?runs"
    by simp_all
  then show ?case
    unfolding block zip by simp
qed

lemma posix_dirname_Cons:
  "posix_dirname (c # cs) =
     (if dropWhile (\<lambda>c. c \<noteq> CHR ''/'') (dropWhile (\<lambda>c. c = CHR ''/'') (rev cs)) = []
      then (if c = CHR ''/'' then ''/'' else ''.'')
      else if c = CHR ''/''
              \<and> length (dropWhile (\<lambda>c. c \<noteq> CHR ''/'')
                          (dropWhile (\<lambda>c. c = CHR ''/'') (rev cs))) = 1
      then ''//''
      else take (length (dropWhile (\<lambda>c. c \<noteq> CHR ''/'')
                           (dropWhile (\<lambda>c. c = CHR ''/'') (rev cs)))) (c # cs))"
  unfolding posix_dirname_def Let_def
  by (simp only: list.sel list.simps if_False)

lemma posix_dirname_nonempty: "posix_dirname p \<noteq> ''''"
proof (cases p)
  case Nil
  then show ?thesis by (simp add: posix_dirname_def)
next
  case (Cons c cs)
  define r where
    "r = dropWhile (\<lambda>c. c \<noteq> CHR ''/'') (dropWhile (\<lambda>c. c = CHR ''/'') (rev cs))"
  have eq: "posix_dirname p =
      (if r = [] then (if c = CHR ''/'' then ''/'' else ''.'')
       else if c = CHR ''/'' \<and> length r = 1 then ''//''
       else take (length r) (c # cs))"
    unfolding Cons r_def by (rule posix_dirname_Cons)
  show ?thesis
  proof (cases "r = []")
    case True
    then show ?thesis unfolding eq by simp
  next
    case False
    then obtain x xs where "r = x # xs" by (cases r) auto
    then show ?thesis unfolding eq by simp
  qed
qed

lemma convertUmlClasses2Dot_blocks:
  assumes nonempty: "\<forall>p. dirname p \<noteq> ''''"
  shows "convertUmlClasses2Dot dirname umlClasses clusterFolders classOptions subGraphCount
    = (dotHeader
       @ concat (map (subgraphBlock clusterFolders classOptions)
           (zip [subGraphCount ..<
                   subGraphCount
                   + length (folderRuns dirname (sortUmlClassesByCodePath umlClasses))]
              (folderRuns dirname (sortUmlClassesByCodePath umlClasses))))
       @ addAssociationsToDot (sortUmlClassesByCodePath umlClasses) classOptions
       @ newline @ ''}'',
       sortUmlClassesByCodePath umlClasses,
       subGraphCount + length (folderRuns dirname (sortUmlClassesByCodePath umlClasses)))"
proof -
  let ?sorted = "sortUmlClassesByCodePath umlClasses"
  obtain dotString' currentCodeFolder' subGraphCount' where
    loop: "subgraphs_loop dirname clusterFolders classOptions ?sorted
             (dotHeader, '''', subGraphCount) = (dotString', currentCodeFolder', subGraphCount')"
    by (cases "subgraphs_loop dirname clusterFolders classOptions ?sorted
             (dotHeader, '''', subGraphCount)") blast
  have pre: "?sorted = [] \<or> dirname (codePath (hd ?sorted)) \<noteq> ''''"
    using nonempty by simp
  from subgraphs_loop_blocks [OF nonempty pre loop]
  have closed: "dotString' @ (if currentCodeFolder' \<noteq> '''' then newline @ ''}'' else '''')
      = dotHeader
        @ concat (map (subgraphBlock clusterFolders classOptions)
            (zip [subGraphCount ..< subGraphCount + length (folderRuns dirname ?sorted)]
               (folderRuns dirname ?sorted)))"
    and cnt: "subGraphCount' = subGraphCount + length (folderRuns dirname ?sorted)"
    by simp_all
  have "convertUmlClasses2Dot dirname umlClasses clusterFolders classOptions subGraphCount
    = ((dotString' @ (if currentCodeFolder' \<noteq> '''' then newline @ ''}'' else ''''))
       @ addAssociationsToDot ?sorted classOptions @ newline @ ''}'', ?sorted, subGraphCount')"
    by (simp add: convertUmlClasses2Dot_def Let_def loop)
  then show ?thesis
    unfolding closed cnt by simp
qed

text \<open>
  C6. \<^verbatim>\<open>path.dirname\<close> never returns the empty string. The classes are sorted by code
  path, and the sorted list is a permutation of the list given. The text is the header,
  one block per run of the sorted list, the edges and the closing brace. The runs are
  the maximal runs of consecutive classes with the same folder: they concatenate to the
  sorted list, none is empty, every class of a run has the folder of the run, and two
  neighbouring runs have different folders. A block holds the label of its folder and
  the nodes of its run. The blocks take the counter values from \<open>subGraphCount\<close> on, one
  each, the counter ends advanced by the number of blocks, and the names of the blocks
  are pairwise distinct.
\<close>

theorem subgraph_blocks_per_folder_run:
  "\<forall>p. dirname p \<noteq> '''' \<Longrightarrow>
   (let umlClassesSorted = sortUmlClassesByCodePath umlClasses;
        runs = folderRuns dirname umlClassesSorted
    in convertUmlClasses2Dot dirname umlClasses clusterFolders classOptions subGraphCount
         = (dotHeader
            @ concat (map (subgraphBlock clusterFolders classOptions)
                (zip [subGraphCount ..< subGraphCount + length runs] runs))
            @ addAssociationsToDot umlClassesSorted classOptions
            @ newline @ ''}'',
            umlClassesSorted, subGraphCount + length runs)
       \<and> sorted (map codePath umlClassesSorted)
       \<and> mset umlClassesSorted = mset umlClasses
       \<and> concat (map snd runs) = umlClassesSorted
       \<and> (\<forall>(folder, run) \<in> set runs.
             run \<noteq> [] \<and> (\<forall>c \<in> set run. dirname (codePath c) = folder))
       \<and> distinct_adj (map fst runs)
       \<and> distinct (map (\<lambda>i. fst (getSubGraphName clusterFolders i))
                    [subGraphCount ..< subGraphCount + length runs])
       \<and> (\<forall>i. getSubGraphName clusterFolders i =
                ((if clusterFolders then '' cluster_'' else '' graph_'') @ Number_toString i,
                 i + 1))
       \<and> (\<forall>i folder run. subgraphBlock clusterFolders classOptions (i, folder, run) =
             newline @ ''subgraph '' @ fst (getSubGraphName clusterFolders i) @ '' {''
             @ newline @ ''label='' @ dquote @ folder @ dquote
             @ concat (map (\<lambda>umlClass. dotUmlClass umlClass classOptions) run)
             @ newline @ ''}''))"
proof -
  assume nonempty: "\<forall>p. dirname p \<noteq> ''''"
  let ?sorted = "sortUmlClassesByCodePath umlClasses"
  let ?runs = "folderRuns dirname ?sorted"
  have uniform: "\<forall>(folder, run) \<in> set ?runs.
             run \<noteq> [] \<and> (\<forall>c \<in> set run. dirname (codePath c) = folder)"
    using folderRuns_uniform [of _ _ dirname ?sorted] by blast
  have perm: "mset ?sorted = mset umlClasses"
    by (simp add: sortUmlClassesByCodePath_sort_key)
  have names: "\<forall>i. getSubGraphName clusterFolders i =
                ((if clusterFolders then '' cluster_'' else '' graph_'') @ Number_toString i,
                 i + 1)"
    by (simp add: getSubGraphName_eq)
  have block: "\<forall>i folder run. subgraphBlock clusterFolders classOptions (i, folder, run) =
             newline @ ''subgraph '' @ fst (getSubGraphName clusterFolders i) @ '' {''
             @ newline @ ''label='' @ dquote @ folder @ dquote
             @ concat (map (\<lambda>umlClass. dotUmlClass umlClass classOptions) run)
             @ newline @ ''}''"
    by (simp add: subgraphBlock_def)
  show ?thesis
    unfolding Let_def
    by (intro conjI)
       (fact convertUmlClasses2Dot_blocks [OF nonempty] sortUmlClassesByCodePath_sorted
          perm folderRuns_concat uniform folderRuns_maximal getSubGraphName_distinct
          names block)+
qed

text \<open>
  Three classes in two folders, given out of order: the blocks \<^verbatim>\<open>graph_7\<close> of the
  folder \<^verbatim>\<open>a\<close> with two classes and \<^verbatim>\<open>graph_8\<close> of the folder \<^verbatim>\<open>b\<close> with one.
\<close>

theorem subgraph_blocks_per_folder_run_witness:
  "(\<forall>p. posix_dirname p \<noteq> '''')
   \<and> snd (convertUmlClasses2Dot posix_dirname
            [ex_class ''1'' ''Y'' ''b/y.sol'' None [] [],
             ex_class ''2'' ''Z'' ''a/z.sol'' None [] [],
             ex_class ''3'' ''X'' ''a/x.sol'' None [] []]
            False (ex_options False False) 7)
     = ([ex_class ''3'' ''X'' ''a/x.sol'' None [] [],
         ex_class ''2'' ''Z'' ''a/z.sol'' None [] [],
         ex_class ''1'' ''Y'' ''b/y.sol'' None [] []], 9)
   \<and> folderRuns posix_dirname
       [ex_class ''3'' ''X'' ''a/x.sol'' None [] [],
        ex_class ''2'' ''Z'' ''a/z.sol'' None [] [],
        ex_class ''1'' ''Y'' ''b/y.sol'' None [] []]
     = [(''a'', [ex_class ''3'' ''X'' ''a/x.sol'' None [] [],
                 ex_class ''2'' ''Z'' ''a/z.sol'' None [] []]),
        (''b'', [ex_class ''1'' ''Y'' ''b/y.sol'' None [] []])]
   \<and> map (\<lambda>i. fst (getSubGraphName False i)) [7 ..< 9] = ['' graph_7'', '' graph_8'']"
proof -
  have nonempty: "\<forall>p. posix_dirname p \<noteq> ''''"
    by (simp add: posix_dirname_nonempty)
  have sorted: "sortUmlClassesByCodePath
            [ex_class ''1'' ''Y'' ''b/y.sol'' None [] [],
             ex_class ''2'' ''Z'' ''a/z.sol'' None [] [],
             ex_class ''3'' ''X'' ''a/x.sol'' None [] []]
     = [ex_class ''3'' ''X'' ''a/x.sol'' None [] [],
         ex_class ''2'' ''Z'' ''a/z.sol'' None [] [],
         ex_class ''1'' ''Y'' ''b/y.sol'' None [] []]"
    by (simp add: sortUmlClassesByCodePath_def Array_sort_def compareCodePath_def ex_class_def)
  have runs: "folderRuns posix_dirname
       [ex_class ''3'' ''X'' ''a/x.sol'' None [] [],
        ex_class ''2'' ''Z'' ''a/z.sol'' None [] [],
        ex_class ''1'' ''Y'' ''b/y.sol'' None [] []]
     = [(''a'', [ex_class ''3'' ''X'' ''a/x.sol'' None [] [],
                 ex_class ''2'' ''Z'' ''a/z.sol'' None [] []]),
        (''b'', [ex_class ''1'' ''Y'' ''b/y.sol'' None [] []])]"
    by (simp add: ex_class_def posix_dirname_def)
  have names: "map (\<lambda>i. fst (getSubGraphName False i)) [7 ..< 9] = ['' graph_7'', '' graph_8'']"
    by (simp add: upt_rec getSubGraphName_def Number_toString.simps digit10_def)
  from subgraph_blocks_per_folder_run
    [OF nonempty, of "[ex_class ''1'' ''Y'' ''b/y.sol'' None [] [],
             ex_class ''2'' ''Z'' ''a/z.sol'' None [] [],
             ex_class ''3'' ''X'' ''a/x.sol'' None [] []]"
        False "ex_options False False" 7]
  have "snd (convertUmlClasses2Dot posix_dirname
            [ex_class ''1'' ''Y'' ''b/y.sol'' None [] [],
             ex_class ''2'' ''Z'' ''a/z.sol'' None [] [],
             ex_class ''3'' ''X'' ''a/x.sol'' None [] []]
            False (ex_options False False) 7)
     = ([ex_class ''3'' ''X'' ''a/x.sol'' None [] [],
         ex_class ''2'' ''Z'' ''a/z.sol'' None [] [],
         ex_class ''1'' ''Y'' ''b/y.sol'' None [] []], 9)"
    unfolding Let_def sorted runs by simp
  with nonempty runs names show ?thesis by blast
qed

section \<open>Rendering twice\<close>

text \<open>
  C3. A second call with the same folder function, flags and options, on the array as
  the first call left it and with the counter set back to the value it had before the
  first call, returns the same dot text, leaves the same array and the same counter.
\<close>

theorem convertUmlClasses2Dot_deterministic:
  "(case convertUmlClasses2Dot dirname umlClasses clusterFolders classOptions subGraphCount of
      (dot1, umlClasses1, subGraphCount1) \<Rightarrow>
        convertUmlClasses2Dot dirname umlClasses1 clusterFolders classOptions subGraphCount
          = (dot1, umlClasses1, subGraphCount1))"
  by (simp add: convertUmlClasses2Dot_def Let_def sortUmlClassesByCodePath_idem
        split: prod.split)

theorem convertUmlClasses2Dot_deterministic_witness:
  "(case convertUmlClasses2Dot posix_dirname
           [ex_class ''1'' ''Y'' ''b/y.sol'' None [] [],
            ex_class ''3'' ''X'' ''a/x.sol'' None [] []]
           True (ex_options False False) 0 of
      (dot1, umlClasses1, subGraphCount1) \<Rightarrow>
        convertUmlClasses2Dot posix_dirname umlClasses1 True (ex_options False False) 0
          = (dot1, umlClasses1, subGraphCount1))
   \<and> fst (snd (convertUmlClasses2Dot posix_dirname
           [ex_class ''1'' ''Y'' ''b/y.sol'' None [] [],
            ex_class ''3'' ''X'' ''a/x.sol'' None [] []]
           True (ex_options False False) 0))
     = [ex_class ''3'' ''X'' ''a/x.sol'' None [] [],
        ex_class ''1'' ''Y'' ''b/y.sol'' None [] []]"
proof -
  have "fst (snd (convertUmlClasses2Dot posix_dirname
           [ex_class ''1'' ''Y'' ''b/y.sol'' None [] [],
            ex_class ''3'' ''X'' ''a/x.sol'' None [] []]
           True (ex_options False False) 0))
     = sortUmlClassesByCodePath
           [ex_class ''1'' ''Y'' ''b/y.sol'' None [] [],
            ex_class ''3'' ''X'' ''a/x.sol'' None [] []]"
    by (simp add: convertUmlClasses2Dot_def Let_def split: prod.split)
  also have "\<dots> = [ex_class ''3'' ''X'' ''a/x.sol'' None [] [],
        ex_class ''1'' ''Y'' ''b/y.sol'' None [] []]"
    by (simp add: sortUmlClassesByCodePath_def Array_sort_def compareCodePath_def ex_class_def)
  finally show ?thesis
    using convertUmlClasses2Dot_deterministic
      [where dirname = posix_dirname
         and umlClasses = "[ex_class ''1'' ''Y'' ''b/y.sol'' None [] [],
            ex_class ''3'' ''X'' ''a/x.sol'' None [] []]"
         and clusterFolders = True and classOptions = "ex_options False False"
         and subGraphCount = 0]
    by (rule conjI [rotated])
qed

section \<open>Unresolved associations\<close>

lemma sameButAssociations_refl: "sameButAssociations x x"
  by (simp add: sameButAssociations_def)

lemma sameButAssociations_update: "sameButAssociations x (x\<lparr>associations := as\<rparr>)"
  by (simp add: sameButAssociations_def)

lemma sameButAssociations_fields:
  assumes "sameButAssociations x y"
  shows "class_id y = class_id x" "class_name y = class_name x" "codePath y = codePath x"
    "stereotype y = stereotype x" "importedPaths y = importedPaths x"
    "attributes y = attributes x" "operators y = operators x"
    "structs y = structs x" "enums y = enums x"
proof -
  from assms have y: "y = x\<lparr>associations := associations y\<rparr>"
    by (simp only: sameButAssociations_def)
  show "class_id y = class_id x" by (subst y) simp
  show "class_name y = class_name x" by (subst y) simp
  show "codePath y = codePath x" by (subst y) simp
  show "stereotype y = stereotype x" by (subst y) simp
  show "importedPaths y = importedPaths x" by (subst y) simp
  show "attributes y = attributes x" by (subst y) simp
  show "operators y = operators x" by (subst y) simp
  show "structs y = structs x" by (subst y) simp
  show "enums y = enums x" by (subst y) simp
qed

lemma dotStructs_loop_cong:
  "class_id y = class_id x \<Longrightarrow>
     dotStructs_loop y ss n acc = dotStructs_loop x ss n acc"
  by (induction x ss n acc rule: dotStructs_loop.induct) (simp_all add: Let_def)

lemma dotEnums_loop_cong:
  "class_id y = class_id x \<Longrightarrow>
     dotEnums_loop y es n acc = dotEnums_loop x es n acc"
  by (induction x es n acc rule: dotEnums_loop.induct) (simp_all add: Let_def)

lemma dotOperator_cong:
  "stereotype y = stereotype x \<Longrightarrow> dotOperator y operator = dotOperator x operator"
  by (simp add: dotOperator_def dotOperatorStereotype_def)

lemma dotOperators_cong:
  assumes "stereotype y = stereotype x"
  shows "dotOperators y vizGroup ops = dotOperators x vizGroup ops"
proof -
  have "dotOperator y = dotOperator x"
    by (intro ext) (rule dotOperator_cong [OF assms])
  then show ?thesis
    by (simp add: dotOperators_concat)
qed

lemma dotUmlClass_cong:
  assumes "sameButAssociations x y"
  shows "dotUmlClass y classOptions = dotUmlClass x classOptions"
proof -
  note f = sameButAssociations_fields [OF assms]
  have "dotClassTitle y = dotClassTitle x"
    by (simp add: dotClassTitle_def f split: option.split ClassStereotype.split)
  moreover have "dotAttributeVisibilities y = dotAttributeVisibilities x"
    by (simp add: dotAttributeVisibilities_def f)
  moreover have "dotOperatorVisibilities y = dotOperatorVisibilities x"
    by (simp add: dotOperatorVisibilities_def f dotOperators_cong [OF f(4)])
  moreover have "dotStructs y = dotStructs x"
    by (simp add: dotStructs_def f dotStructs_loop_cong [OF f(1)])
  moreover have "dotEnums y = dotEnums x"
    by (simp add: dotEnums_def f dotEnums_loop_cong [OF f(1)])
  moreover have "hiddenClass classOptions y = hiddenClass classOptions x"
    by (simp add: hiddenClass_def f)
  ultimately show ?thesis
    by (simp add: dotUmlClass_def f)
qed

lemma isTargetOf_cong:
  assumes "sameButAssociations x y" "sameButAssociations t u"
  shows "isTargetOf y a u = isTargetOf x a t"
  by (simp add: isTargetOf_def sameButAssociations_fields [OF assms(1)]
        sameButAssociations_fields [OF assms(2)])

lemma addAssociationToDot_cong:
  assumes "sameButAssociations x y" "sameButAssociations t u"
  shows "addAssociationToDot y u a classOptions = addAssociationToDot x t a classOptions"
  by (simp add: addAssociationToDot_def hiddenClass_def
        sameButAssociations_fields [OF assms(1)] sameButAssociations_fields [OF assms(2)])

lemma insort_key_rel:
  assumes key: "\<And>a b. R a b \<Longrightarrow> k a = k b"
  shows "list_all2 R xs ys \<Longrightarrow> R x y \<Longrightarrow>
           list_all2 R (insort_key k x xs) (insort_key k y ys)"
proof (induction xs ys rule: list_all2_induct)
  case Nil
  then show ?case by simp
next
  case (Cons a xs b ys)
  have "k a = k b" using Cons.hyps(1) by (rule key)
  moreover have "k x = k y" using Cons.prems by (rule key)
  ultimately have cmp: "(k x \<le> k a) = (k y \<le> k b)" by (simp only:)
  show ?case
  proof (cases "k y \<le> k b")
    case True
    with cmp Cons.hyps Cons.prems show ?thesis by simp
  next
    case False
    with cmp Cons.hyps(1) Cons.IH [OF Cons.prems] show ?thesis by simp
  qed
qed

lemma sort_key_rel:
  assumes key: "\<And>a b. R a b \<Longrightarrow> k a = k b"
  shows "list_all2 R xs ys \<Longrightarrow> list_all2 R (sort_key k xs) (sort_key k ys)"
proof (induction xs ys rule: list_all2_induct)
  case Nil
  then show ?case by simp
next
  case (Cons a xs b ys)
  from insort_key_rel [of R k, OF key Cons.IH Cons.hyps(1)]
  show ?case by simp
qed

lemma find_rel:
  assumes pred: "\<And>a b. R a b \<Longrightarrow> P a = Q b"
  shows "list_all2 R xs ys \<Longrightarrow> rel_option R (find P xs) (find Q ys)"
proof (induction xs ys rule: list_all2_induct)
  case Nil
  then show ?case by simp
next
  case (Cons a xs b ys)
  have "P a = Q b" using Cons.hyps(1) by (rule pred)
  with Cons.hyps(1) Cons.IH show ?case by (cases "Q b") simp_all
qed

lemma concat_map_rel:
  assumes each: "\<And>a b. R a b \<Longrightarrow> f a = g b"
  shows "list_all2 R xs ys \<Longrightarrow> concat (map f xs) = concat (map g ys)"
proof (induction xs ys rule: list_all2_induct)
  case Nil
  then show ?case by simp
next
  case (Cons a xs b ys)
  have "f a = g b" using Cons.hyps(1) by (rule each)
  with Cons.IH show ?case by simp
qed

lemma subgraphs_loop_rel:
  assumes folder: "\<And>a b. R a b \<Longrightarrow> codePath b = codePath a"
    and node: "\<And>a b. R a b \<Longrightarrow> dotUmlClass b classOptions = dotUmlClass a classOptions"
  shows "list_all2 R xs ys \<Longrightarrow>
    subgraphs_loop dirname clusterFolders classOptions ys state
      = subgraphs_loop dirname clusterFolders classOptions xs state"
proof (induction xs ys arbitrary: state rule: list_all2_induct)
  case Nil
  then show ?case by simp
next
  case (Cons a xs b ys)
  obtain dotString currentCodeFolder subGraphCount
    where state: "state = (dotString, currentCodeFolder, subGraphCount)"
    by (cases state)
  have b: "codePath b = codePath a" "dotUmlClass b classOptions = dotUmlClass a classOptions"
    using Cons.hyps(1) by (rule folder) (rule node [OF Cons.hyps(1)])
  show ?case
    unfolding state subgraphs_loop.simps b Cons.IH ..
qed

lemma sourceEdges_rel:
  assumes lists: "list_all2 sameButAssociations xs ys"
    and source: "sameButAssociations x y"
  shows "sourceEdges ys classOptions y as = sourceEdges xs classOptions x as"
proof (induction as)
  case Nil
  show ?case by (simp add: sourceEdges_def)
next
  case (Cons a as)
  have "rel_option sameButAssociations (find (isTargetOf x a) xs) (find (isTargetOf y a) ys)"
    using lists
  proof (rule find_rel [rotated])
    fix t u assume "sameButAssociations t u"
    with source show "isTargetOf x a t = isTargetOf y a u"
      by (simp only: isTargetOf_cong)
  qed
  then have "(case find (isTargetOf y a) ys of None \<Rightarrow> ''''
              | Some t \<Rightarrow> addAssociationToDot y t a classOptions)
           = (case find (isTargetOf x a) xs of None \<Rightarrow> ''''
              | Some t \<Rightarrow> addAssociationToDot x t a classOptions)"
  proof (cases rule: option.rel_cases)
    case None
    then show ?thesis by simp
  next
    case (Some t u)
    with source show ?thesis by (simp add: addAssociationToDot_cong [of x y t u])
  qed
  with Cons show ?case by (simp add: sourceEdges_def)
qed

lemma sourceEdges_unresolved:
  "find (isTargetOf x a) xs = None \<Longrightarrow>
     sourceEdges xs classOptions x (as1 @ a # as2) = sourceEdges xs classOptions x (as1 @ as2)"
  by (simp add: sourceEdges_def)

lemma addAssociationsToDot_sourceEdges:
  "addAssociationsToDot umlClasses classOptions =
     concat (map (\<lambda>s. sourceEdges umlClasses classOptions s (map snd (associations s)))
               umlClasses)"
  by (simp add: addAssociationsToDot_concat sourceEdges_def)

lemma addAssociationsToDot_rel:
  assumes lists: "list_all2 (\<lambda>x y. y = x \<or> (x = s \<and> y = s\<lparr>associations := as1 @ as2\<rparr>)) xs ys"
    and assocs: "associations s = as1 @ (key, association) # as2"
    and unresolved: "find (isTargetOf s association) xs = None"
  shows "addAssociationsToDot ys classOptions = addAssociationsToDot xs classOptions"
proof -
  let ?s' = "s\<lparr>associations := as1 @ as2\<rparr>"
  let ?R = "\<lambda>x y. y = x \<or> (x = s \<and> y = ?s')"
  have same: "sameButAssociations x y" if "?R x y" for x y
    using that sameButAssociations_refl [of x] sameButAssociations_update [of s "as1 @ as2"]
    by blast
  have lists': "list_all2 sameButAssociations xs ys"
    using lists by (rule list_all2_mono) (rule same)
  have each: "sourceEdges xs classOptions x (map snd (associations x))
                = sourceEdges ys classOptions y (map snd (associations y))"
    if "?R x y" for x y
  proof -
    from that consider (same) "y = x" | (dropped) "x = s" "y = ?s'" by blast
    then show ?thesis
    proof cases
      case same
      show ?thesis
        unfolding same
        by (rule sourceEdges_rel [OF lists' sameButAssociations_refl, symmetric])
    next
      case dropped
      have "sourceEdges ys classOptions ?s' (map snd (as1 @ as2))
              = sourceEdges xs classOptions s (map snd (as1 @ as2))"
        by (rule sourceEdges_rel [OF lists' sameButAssociations_update])
      also have "\<dots> = sourceEdges xs classOptions s (map snd as1 @ association # map snd as2)"
        using sourceEdges_unresolved [OF unresolved, of classOptions "map snd as1" "map snd as2"]
        by simp
      also have "\<dots> = sourceEdges xs classOptions s (map snd (associations s))"
        by (simp add: assocs)
      finally show ?thesis
        unfolding dropped by simp
    qed
  qed
  have "concat (map (\<lambda>x. sourceEdges xs classOptions x (map snd (associations x))) xs)
          = concat (map (\<lambda>y. sourceEdges ys classOptions y (map snd (associations y))) ys)"
  proof (rule concat_map_rel
      [where R = ?R
         and f = "\<lambda>x. sourceEdges xs classOptions x (map snd (associations x))"
         and g = "\<lambda>y. sourceEdges ys classOptions y (map snd (associations y))"])
    show "list_all2 ?R xs ys" by (rule lists)
  next
    fix a b assume "b = a \<or> (a = s \<and> b = ?s')"
    then show "sourceEdges xs classOptions a (map snd (associations a))
                 = sourceEdges ys classOptions b (map snd (associations b))"
      by (rule each)
  qed
  then show ?thesis
    unfolding addAssociationsToDot_sourceEdges by (rule sym)
qed

text \<open>
  C8. Let an association of the class at index \<open>i\<close> match no class of the list. The
  list without that association gives the same text of the edges, and the renderer
  returns the same dot text and the same counter for it. The lookup has no failing
  branch: \<^verbatim>\<open>addAssociationsToDot\<close> and \<^verbatim>\<open>convertUmlClasses2Dot\<close> return a text for
  every list.
\<close>

theorem unresolved_association_dropped:
  "i < length umlClasses \<Longrightarrow>
   associations (umlClasses ! i) = as1 @ (key, association) # as2 \<Longrightarrow>
   find (isTargetOf (umlClasses ! i) association) umlClasses = None \<Longrightarrow>
   (let umlClasses' = umlClasses[i := (umlClasses ! i)\<lparr>associations := as1 @ as2\<rparr>]
    in addAssociationsToDot umlClasses' classOptions
         = addAssociationsToDot umlClasses classOptions
       \<and> fst (convertUmlClasses2Dot dirname umlClasses' clusterFolders classOptions
                 subGraphCount)
           = fst (convertUmlClasses2Dot dirname umlClasses clusterFolders classOptions
                    subGraphCount)
       \<and> snd (snd (convertUmlClasses2Dot dirname umlClasses' clusterFolders classOptions
                      subGraphCount))
           = snd (snd (convertUmlClasses2Dot dirname umlClasses clusterFolders classOptions
                         subGraphCount)))"
proof -
  assume i: "i < length umlClasses"
    and assocs: "associations (umlClasses ! i) = as1 @ (key, association) # as2"
    and unresolved: "find (isTargetOf (umlClasses ! i) association) umlClasses = None"
  let ?s = "umlClasses ! i"
  let ?s' = "?s\<lparr>associations := as1 @ as2\<rparr>"
  let ?cs' = "umlClasses[i := ?s']"
  let ?R = "\<lambda>x y. y = x \<or> (x = ?s \<and> y = ?s')"
  have lists: "list_all2 ?R umlClasses ?cs'"
    unfolding list_all2_conv_all_nth
  proof (intro conjI allI impI)
    show "length umlClasses = length ?cs'" by simp
    fix j assume "j < length umlClasses"
    then show "?cs' ! j = umlClasses ! j \<or> (umlClasses ! j = ?s \<and> ?cs' ! j = ?s')"
      by (cases "j = i") simp_all
  qed
  have same: "sameButAssociations x y" if "?R x y" for x y
    using that sameButAssociations_refl [of x] sameButAssociations_update [of ?s "as1 @ as2"]
    by blast
  have key: "codePath x = codePath y" if "?R x y" for x y
    using sameButAssociations_fields(3) [OF same [OF that]] by simp
  have sorted: "list_all2 ?R (sortUmlClassesByCodePath umlClasses)
                  (sortUmlClassesByCodePath ?cs')"
    unfolding sortUmlClassesByCodePath_sort_key
  proof (rule sort_key_rel [where R = ?R and k = codePath])
    show "list_all2 ?R umlClasses ?cs'" by (rule lists)
  next
    fix a b assume "b = a \<or> (a = ?s \<and> b = ?s')"
    then show "codePath a = codePath b" by (rule key)
  qed
  have unresolved': "find (isTargetOf ?s association) (sortUmlClassesByCodePath umlClasses) = None"
    using unresolved by (simp add: find_None_iff sortUmlClassesByCodePath_sort_key)
  have edges: "addAssociationsToDot ?cs' classOptions
                 = addAssociationsToDot umlClasses classOptions"
    by (rule addAssociationsToDot_rel [OF lists assocs unresolved])
  have edges': "addAssociationsToDot (sortUmlClassesByCodePath ?cs') classOptions
                 = addAssociationsToDot (sortUmlClassesByCodePath umlClasses) classOptions"
    by (rule addAssociationsToDot_rel [OF sorted assocs unresolved'])
  have loop: "subgraphs_loop dirname clusterFolders classOptions
                (sortUmlClassesByCodePath ?cs') state
              = subgraphs_loop dirname clusterFolders classOptions
                  (sortUmlClassesByCodePath umlClasses) state" for state
  proof (rule subgraphs_loop_rel [where R = ?R])
    show "list_all2 ?R (sortUmlClassesByCodePath umlClasses) (sortUmlClassesByCodePath ?cs')"
      by (rule sorted)
  next
    fix a b assume "b = a \<or> (a = ?s \<and> b = ?s')"
    then have "sameButAssociations a b" by (rule same)
    then show "codePath b = codePath a" by (rule sameButAssociations_fields(3))
  next
    fix a b assume "b = a \<or> (a = ?s \<and> b = ?s')"
    then have "sameButAssociations a b" by (rule same)
    then show "dotUmlClass b classOptions = dotUmlClass a classOptions"
      by (rule dotUmlClass_cong)
  qed
  have "fst (convertUmlClasses2Dot dirname ?cs' clusterFolders classOptions subGraphCount)
           = fst (convertUmlClasses2Dot dirname umlClasses clusterFolders classOptions
                    subGraphCount)"
    and "snd (snd (convertUmlClasses2Dot dirname ?cs' clusterFolders classOptions
                      subGraphCount))
           = snd (snd (convertUmlClasses2Dot dirname umlClasses clusterFolders classOptions
                         subGraphCount))"
    unfolding convertUmlClasses2Dot_def Let_def loop edges'
    by (simp_all add: split_def)
  with edges show ?thesis
    unfolding Let_def by (intro conjI)
qed

text \<open>
  A contract with an association to \<^verbatim>\<open>Oracle\<close>, which no class of the list is, and an
  association to \<^verbatim>\<open>Foo\<close>: the text is the edge to \<^verbatim>\<open>Foo\<close> alone.
\<close>

theorem unresolved_association_dropped_witness:
  "addAssociationsToDot
     [ex_class ''1'' ''Foo'' ''a.sol'' None [] [],
      ex_class ''2'' ''Bar'' ''a.sol'' None
        [(''Oracle'', ex_association ''Oracle'' ReferenceType_Storage False),
         (''Foo'', ex_association ''Foo'' ReferenceType_Storage False)] []]
     (ex_options False False)
   = addAssociationsToDot
       [ex_class ''1'' ''Foo'' ''a.sol'' None [] [],
        ex_class ''2'' ''Bar'' ''a.sol'' None
          [(''Foo'', ex_association ''Foo'' ReferenceType_Storage False)] []]
       (ex_options False False)
   \<and> addAssociationsToDot
       [ex_class ''1'' ''Foo'' ''a.sol'' None [] [],
        ex_class ''2'' ''Bar'' ''a.sol'' None
          [(''Foo'', ex_association ''Foo'' ReferenceType_Storage False)] []]
       (ex_options False False)
     = newline @ ''2 -> 1 []''"
proof -
  let ?cs = "[ex_class ''1'' ''Foo'' ''a.sol'' None [] [],
      ex_class ''2'' ''Bar'' ''a.sol'' None
        [(''Oracle'', ex_association ''Oracle'' ReferenceType_Storage False),
         (''Foo'', ex_association ''Foo'' ReferenceType_Storage False)] []]"
  have i: "1 < length ?cs" by simp
  have assocs: "associations (?cs ! 1)
      = [] @ (''Oracle'', ex_association ''Oracle'' ReferenceType_Storage False)
        # [(''Foo'', ex_association ''Foo'' ReferenceType_Storage False)]"
    by (simp add: ex_class_def)
  have unresolved: "find (isTargetOf (?cs ! 1) (ex_association ''Oracle'' ReferenceType_Storage False))
      ?cs = None"
    by (simp add: ex_class_def ex_association_def isTargetOf_def)
  have upd: "?cs[1 := (?cs ! 1)\<lparr>associations :=
                [] @ [(''Foo'', ex_association ''Foo'' ReferenceType_Storage False)]\<rparr>]
      = [ex_class ''1'' ''Foo'' ''a.sol'' None [] [],
         ex_class ''2'' ''Bar'' ''a.sol'' None
           [(''Foo'', ex_association ''Foo'' ReferenceType_Storage False)] []]"
    by (simp add: ex_class_def)
  have edge: "addAssociationsToDot
       [ex_class ''1'' ''Foo'' ''a.sol'' None [] [],
        ex_class ''2'' ''Bar'' ''a.sol'' None
          [(''Foo'', ex_association ''Foo'' ReferenceType_Storage False)] []]
       (ex_options False False)
     = newline @ ''2 -> 1 []''"
    by (simp add: addAssociationsToDot_def ex_class_def ex_association_def ex_options_def
          isTargetOf_def addAssociationToDot_def hiddenClass_def newline_def)
  from unresolved_association_dropped
    [OF i assocs unresolved, of "ex_options False False" posix_dirname False 0]
  show ?thesis
    unfolding Let_def upd using edge by simp
qed

section \<open>Failing writes\<close>

lemma generateFilesFromUmlClasses_dot:
  "generateFilesFromUmlClasses platform umlClasses outputBaseName Format_dot outputFilename
     clusterFolders classOptions subGraphCount
   = (Inr (),
      writeDot platform
        (fst (convertUmlClasses2Dot (path_dirname platform) umlClasses clusterFolders
                classOptions subGraphCount))
        outputFilename,
      snd (snd (convertUmlClasses2Dot (path_dirname platform) umlClasses clusterFolders
                  classOptions subGraphCount)))"
  by (simp add: generateFilesFromUmlClasses_def Let_def split_def)

lemma writeDot_failure:
  "fs_writeFile platform f dot = Some err \<Longrightarrow>
     writeDot platform dot (Some f) = [VError err (''Failed to write Dot file to '' @ f)]"
  by (simp add: writeDot_def)

lemma writeSVG_failure:
  "fs_writeFile platform f svg = Some err \<Longrightarrow>
     writeSVG platform svg (Some f) Format_svg
       = Inl (VError err (''Failed to write SVG file to '' @ f))"
  by (simp add: writeSVG_def)

text \<open>
  C9. With the format \<^verbatim>\<open>dot\<close> the operation settles to success whatever the outcome of
  the write: the \<^verbatim>\<open>VError\<close> that names the dot file is thrown by the callback on the
  event loop and is no result of the operation. On a platform where every write fails,
  the export of one class to \<^verbatim>\<open>out.dot\<close> returns success with that error thrown
  aside, while the export to \<^verbatim>\<open>out.svg\<close> returns the error that names the svg file.
\<close>

theorem writeDot_failure_not_propagated:
  "fst (generateFilesFromUmlClasses platform umlClasses outputBaseName Format_dot
          outputFilename clusterFolders classOptions subGraphCount) = Inr ()
   \<and> generateFilesFromUmlClasses ex_platform [ex_class ''1'' ''Token'' ''a.sol'' None [] []]
       ''out'' Format_dot (Some ''out.dot'') False (ex_options False False) 0
     = (Inr (), [VError (Error ''ENOENT'') ''Failed to write Dot file to out.dot''], 1)
   \<and> fst (generateFilesFromUmlClasses ex_platform
            [ex_class ''1'' ''Token'' ''a.sol'' None [] []]
            ''out'' Format_svg (Some ''out.svg'') False (ex_options False False) 0)
     = Inl (VError (Error ''ENOENT'') ''Failed to write SVG file to out.svg'')"
proof -
  have nonempty: "\<forall>p. path_dirname ex_platform p \<noteq> ''''"
    by (simp add: ex_platform_def posix_dirname_nonempty)
  have counter: "snd (snd (convertUmlClasses2Dot (path_dirname ex_platform)
            [ex_class ''1'' ''Token'' ''a.sol'' None [] []] False (ex_options False False) 0))
      = 1"
    unfolding convertUmlClasses2Dot_blocks [OF nonempty]
    by (simp add: sortUmlClassesByCodePath_def Array_sort_def)
  have thrown: "writeDot ex_platform dot (Some ''out.dot'')
      = [VError (Error ''ENOENT'') ''Failed to write Dot file to out.dot'']" for dot
    by (rule writeDot_failure [of ex_platform "''out.dot''" dot "Error ''ENOENT''", simplified])
       (simp add: ex_platform_def)
  have svg: "fst (generateFilesFromUmlClasses ex_platform
            [ex_class ''1'' ''Token'' ''a.sol'' None [] []]
            ''out'' Format_svg (Some ''out.svg'') False (ex_options False False) 0)
     = Inl (VError (Error ''ENOENT'') ''Failed to write SVG file to out.svg'')"
    by (simp add: generateFilesFromUmlClasses_def Let_def split_def convertDot2Svg_def
          writeSVG_def ex_platform_def)
  show ?thesis
    unfolding generateFilesFromUmlClasses_dot thrown counter using svg by simp
qed

end
